theory Spec2Isabelle
  imports Complex_Main
begin

chapter \<open>CHAP: annealing, frame analysis, aggregation and OBJ scaling\<close>

text \<open>
  The numbers of the program are single or double precision floats. They are modelled
  as real numbers; rounding is modelled for the Wavefront OBJ object only, where a claim
  is about exact results. Where the program divides by a quantity that can be zero, the
  outcome of the IEEE division is written out in the model.
\<close>

section \<open>Simulated annealing module (optim/simulated\_annealing\_module.cpp)\<close>

subsection \<open>Data\<close>

text \<open>
  The parameter map \<open>std::map<std::string, real>\<close> handed to \<open>setParams\<close>.
\<close>

type_synonym params = "string \<rightharpoonup> real"

text \<open>
  \<open>setParams\<close> prints a message and calls \<open>std::abort()\<close> in four places; each is
  one error value.
\<close>

datatype sa_error =
    NoMaxCoolingIter
  | NoInitTemp
  | NoCoolingFactor
  | NoStepLengthFactor

text \<open>
  Modelled from the spec: the header that declares the members of
  \<open>SimulatedAnnealingModule\<close> is not available. The seed and the loop bound
  \<open>maxCoolingIter_\<close>, which the loop compares with an \<open>int\<close> counter, are integers;
  \<open>stateDim_\<close> is the length of the state vectors; temperature, cooling factor, step
  length factor and the costs are of type \<open>real\<close>. The random engine \<open>rng_\<close> has an
  abstract state of type \<open>'r\<close>; the two distribution objects \<open>candGenDistr_\<close> (normal)
  and \<open>candAccDistr_\<close> (uniform on [0,1)) draw a number from the engine and return the
  advanced engine. The objective function \<open>objFun_\<close> is a pure function of the state
  vector.
\<close>

record 'r sa_module =
  seed :: int
  maxCoolingIter :: int
  temp :: real
  coolingFactor :: real
  stepLengthFactor :: real
  stateDim :: nat
  crntState :: "real list"
  candState :: "real list"
  bestState :: "real list"
  crntCost :: real
  candCost :: real
  bestCost :: real
  objFun :: "real list \<Rightarrow> real"
  rng :: 'r
  candGenDistr :: "'r \<Rightarrow> real \<times> 'r"
  candAccDistr :: "'r \<Rightarrow> real \<times> 'r"

subsection \<open>Configuration\<close>

text \<open>
  Assigning a \<open>real\<close> to an integer member truncates towards zero.
\<close>

definition real_to_int :: "real \<Rightarrow> int" where
  "real_to_int x = (if 0 \<le> x then \<lfloor>x\<rfloor> else \<lceil>x\<rceil>)"

text \<open>
  \<open>setParams\<close>: the seed is stored when given and left as it is otherwise (the else
  branch holds only a TODO); each of the other four keys is stored when given and
  aborts otherwise, in the order of the source. No value is checked.
\<close>

definition setParams :: "params \<Rightarrow> 'r sa_module \<Rightarrow> sa_error + 'r sa_module" where
  "setParams ps m =
     (let m1 = (case ps ''saSeed'' of
                  Some v \<Rightarrow> m\<lparr>seed := real_to_int v\<rparr>
                | None \<Rightarrow> m)
      in case ps ''saMaxCoolingIter'' of
           None \<Rightarrow> Inl NoMaxCoolingIter
         | Some n \<Rightarrow>
             (let m2 = m1\<lparr>maxCoolingIter := real_to_int n\<rparr>
              in case ps ''saInitTemp'' of
                   None \<Rightarrow> Inl NoInitTemp
                 | Some t \<Rightarrow>
                     (let m3 = m2\<lparr>temp := t\<rparr>
                      in case ps ''saCoolingFactor'' of
                           None \<Rightarrow> Inl NoCoolingFactor
                         | Some c \<Rightarrow>
                             (let m4 = m3\<lparr>coolingFactor := c\<rparr>
                              in case ps ''saStepLengthFactor'' of
                                   None \<Rightarrow> Inl NoStepLengthFactor
                                 | Some l \<Rightarrow> Inr (m4\<lparr>stepLengthFactor := l\<rparr>)))))"

definition setObjFun :: "(real list \<Rightarrow> real) \<Rightarrow> 'r sa_module \<Rightarrow> 'r sa_module" where
  "setObjFun f m = m\<lparr>objFun := f\<rparr>"

definition setInitGuess :: "real list \<Rightarrow> 'r sa_module \<Rightarrow> 'r sa_module" where
  "setInitGuess guess m =
     m\<lparr>stateDim := length guess,
       crntState := guess, candState := guess, bestState := guess\<rparr>"

subsection \<open>One annealing iteration\<close>

definition cool :: "'r sa_module \<Rightarrow> 'r sa_module" where
  "cool m = m\<lparr>temp := temp m * coolingFactor m\<rparr>"

text \<open>
  One pass of the loop in \<open>generateCandidateStateIsotropic\<close>, at index \<open>i\<close>. The
  loop runs over the indices below \<open>stateDim_\<close>, which \<open>setInitGuess\<close> sets to the
  length of the three state vectors.
\<close>

definition candStep :: "nat \<Rightarrow> 'r sa_module \<Rightarrow> 'r sa_module" where
  "candStep i m =
     (let (z, r) = candGenDistr m (rng m)
      in m\<lparr>candState := (candState m)[i := crntState m ! i + stepLengthFactor m * z],
           rng := r\<rparr>)"

definition generateCandidateStateIsotropic :: "'r sa_module \<Rightarrow> 'r sa_module" where
  "generateCandidateStateIsotropic m = fold candStep [0..<stateDim m] m"

text \<open>
  The acceptance probability \<open>std::min(std::exp((candCost_ - crntCost_)/temp_), 1.0f)\<close>
  compared with a uniform draw \<open>r\<close>. At \<open>temp_ = 0\<close> the float quotient is plus
  infinity, minus infinity or NaN: the probability is then 1, 0 or NaN, and a
  comparison with NaN is false.
\<close>

definition acceptTest :: "real \<Rightarrow> real \<Rightarrow> real \<Rightarrow> real \<Rightarrow> bool" where
  "acceptTest cand crnt t r =
     (if t = 0
      then (if crnt < cand then r < 1 else if cand < crnt then r < 0 else False)
      else r < min (exp ((cand - crnt) / t)) 1)"

definition acceptCandidateState :: "'r sa_module \<Rightarrow> bool \<times> 'r sa_module" where
  "acceptCandidateState m =
     (let (r, g) = candAccDistr m (rng m)
      in (acceptTest (candCost m) (crntCost m) (temp m) r, m\<lparr>rng := g\<rparr>))"

text \<open>
  The body of the \<open>while(true)\<close> loop of \<open>annealIsotropic\<close> up to and including
  \<open>cool()\<close>.
\<close>

definition takeCandidate :: "'r sa_module \<Rightarrow> 'r sa_module" where
  "takeCandidate m =
     (let m1 = m\<lparr>crntState := candState m, crntCost := candCost m\<rparr>
      in if bestCost m1 < candCost m1
         then m1\<lparr>bestState := candState m1, bestCost := candCost m1\<rparr>
         else m1)"

definition proposeCandidate :: "'r sa_module \<Rightarrow> 'r sa_module" where
  "proposeCandidate m =
     (let m1 = generateCandidateStateIsotropic m
      in m1\<lparr>candCost := objFun m1 (candState m1)\<rparr>)"

definition annealStep :: "'r sa_module \<Rightarrow> 'r sa_module" where
  "annealStep m =
     (let m2 = proposeCandidate m;
          (acc, m3) = acceptCandidateState m2;
          m4 = (if acc then takeCandidate m3 else m3)
      in cool m4)"

subsection \<open>The annealing loop\<close>

text \<open>
  \<open>annealIsotropic\<close>: the counter \<open>nCoolingIter\<close> starts at 0; the body runs, the
  counter is incremented, and only then is it compared with \<open>maxCoolingIter_\<close>. The
  counter never exceeds \<open>maxCoolingIter_\<close> before an increment, so the C \<open>int\<close> does
  not overflow and is modelled as an integer.
\<close>

function annealLoop :: "int \<Rightarrow> 'r sa_module \<Rightarrow> 'r sa_module" where
  "annealLoop nCoolingIter m =
     (let m1 = annealStep m;
          n1 = nCoolingIter + 1
      in if maxCoolingIter m1 \<le> n1 then m1 else annealLoop n1 m1)"
  by pat_completeness auto
termination
proof (relation "measure (\<lambda>(n, m). nat (maxCoolingIter m - n))")
  show "wf (measure (\<lambda>(n, m::'r sa_module). nat (maxCoolingIter m - n)))"
    by simp
next
  fix nCoolingIter :: int and m m1 :: "'r sa_module" and n1 :: int
  assume m1: "m1 = annealStep m" and n1: "n1 = nCoolingIter + 1"
    and run: "\<not> maxCoolingIter m1 \<le> n1"
  have gen: "maxCoolingIter (fold candStep js k) = maxCoolingIter k"
    for js and k :: "'r sa_module"
    by (induction js arbitrary: k) (simp_all add: candStep_def case_prod_beta)
  have "maxCoolingIter (annealStep m) = maxCoolingIter m"
    by (simp add: annealStep_def proposeCandidate_def generateCandidateStateIsotropic_def
        acceptCandidateState_def takeCandidate_def cool_def gen Let_def case_prod_beta)
  with m1 n1 run
  show "((n1, m1), (nCoolingIter, m)) \<in> measure (\<lambda>(n, m). nat (maxCoolingIter m - n))"
    by simp
qed

declare annealLoop.simps [simp del]

definition annealIsotropic :: "'r sa_module \<Rightarrow> 'r sa_module" where
  "annealIsotropic m = annealLoop 0 m"

definition anneal :: "'r sa_module \<Rightarrow> 'r sa_module" where
  "anneal m =
     annealIsotropic
       (m\<lparr>crntCost := objFun m (crntState m),
          candCost := objFun m (candState m),
          bestCost := objFun m (bestState m)\<rparr>)"

definition optimise :: "'r sa_module \<Rightarrow> 'r sa_module" where
  "optimise m = anneal m"

definition getOptimPoint :: "'r sa_module \<Rightarrow> real list \<times> real" where
  "getOptimPoint m = (bestState m, bestCost m)"

subsection \<open>Names for the quantities of one iteration\<close>

text \<open>
  The candidate state proposed from a module state, the uniform number drawn for the
  acceptance test, and the outcome of the test.
\<close>

definition candidate :: "'r sa_module \<Rightarrow> real list" where
  "candidate m = candState (proposeCandidate m)"

definition accDraw :: "'r sa_module \<Rightarrow> real" where
  "accDraw m = fst (candAccDistr m (rng (proposeCandidate m)))"

definition accepted :: "'r sa_module \<Rightarrow> bool" where
  "accepted m = fst (acceptCandidateState (proposeCandidate m))"

text \<open>
  A module in one dimension that maximises the coordinate itself: every proposal steps
  by one, every uniform draw is one half.
\<close>

definition sa_example :: "int \<Rightarrow> nat sa_module" where
  "sa_example n =
     \<lparr>seed = 0, maxCoolingIter = n, temp = 1, coolingFactor = 1 / 2,
      stepLengthFactor = 1, stateDim = 1,
      crntState = [0], candState = [0], bestState = [0],
      crntCost = 0, candCost = 0, bestCost = 0,
      objFun = sum_list, rng = 0,
      candGenDistr = (\<lambda>r. (1, r + 1)), candAccDistr = (\<lambda>r. (1 / 2, r + 1))\<rparr>"

section \<open>Floats that may be infinite or NaN\<close>

text \<open>
  Where the program starts from an infinity or can divide zero by zero, a float is a
  real number, plus or minus infinity, or NaN. The operations follow IEEE 754 without
  rounding; the sign of a zero is not modelled, and a zero divisor counts as positive
  (the divisors of this program are counts).
\<close>

datatype fp = Fin real | PInf | MInf | NaN

fun fless :: "fp \<Rightarrow> fp \<Rightarrow> bool" where
  "fless (Fin a) (Fin b) = (a < b)"
| "fless (Fin a) PInf = True"
| "fless MInf (Fin b) = True"
| "fless MInf PInf = True"
| "fless _ _ = False"

fun fneg :: "fp \<Rightarrow> fp" where
  "fneg (Fin a) = Fin (- a)"
| "fneg PInf = MInf"
| "fneg MInf = PInf"
| "fneg NaN = NaN"

fun fadd :: "fp \<Rightarrow> fp \<Rightarrow> fp" where
  "fadd (Fin a) (Fin b) = Fin (a + b)"
| "fadd NaN _ = NaN"
| "fadd _ NaN = NaN"
| "fadd PInf MInf = NaN"
| "fadd MInf PInf = NaN"
| "fadd PInf _ = PInf"
| "fadd _ PInf = PInf"
| "fadd MInf _ = MInf"
| "fadd _ MInf = MInf"

definition fsub :: "fp \<Rightarrow> fp \<Rightarrow> fp" where
  "fsub a b = fadd a (fneg b)"

text \<open>An infinity with the sign of \<open>a\<close>, or NaN when \<open>a\<close> is zero.\<close>

definition finf :: "real \<Rightarrow> fp" where
  "finf a = (if a = 0 then NaN else if 0 < a then PInf else MInf)"

fun fmul :: "fp \<Rightarrow> fp \<Rightarrow> fp" where
  "fmul (Fin a) (Fin b) = Fin (a * b)"
| "fmul NaN _ = NaN"
| "fmul _ NaN = NaN"
| "fmul PInf (Fin b) = finf b"
| "fmul (Fin a) PInf = finf a"
| "fmul MInf (Fin b) = finf (- b)"
| "fmul (Fin a) MInf = finf (- a)"
| "fmul PInf PInf = PInf"
| "fmul MInf MInf = PInf"
| "fmul PInf MInf = MInf"
| "fmul MInf PInf = MInf"

text \<open>Division of a float by a non-negative count.\<close>

fun fdiv_count :: "fp \<Rightarrow> nat \<Rightarrow> fp" where
  "fdiv_count (Fin a) n = (if n = 0 then finf a else Fin (a / real n))"
| "fdiv_count PInf n = PInf"
| "fdiv_count MInf n = MInf"
| "fdiv_count NaN n = NaN"

text \<open>\<open>std::sqrt\<close> of a real number: NaN below zero.\<close>

definition fsqrt :: "real \<Rightarrow> fp" where
  "fsqrt a = (if a < 0 then NaN else Fin (sqrt a))"

section \<open>Wavefront OBJ objects (io/wavefront\_obj\_io.cpp)\<close>

text \<open>A \<open>gmx::RVec\<close> with its components XX, YY, ZZ.\<close>

type_synonym rvec = "fp \<times> fp \<times> fp"

record wavefront_obj_group =
  groupname :: string
  faces :: "int list list"

record wavefront_obj_object =
  name :: string
  vertices :: "rvec list"
  groups :: "wavefront_obj_group list"

definition addVertices :: "rvec list \<Rightarrow> wavefront_obj_object \<Rightarrow> wavefront_obj_object" where
  "addVertices vs obj = obj\<lparr>vertices := vertices obj @ vs\<rparr>"

text \<open>\<open>shift\<close>: every vertex has the vector added, component by component.\<close>

definition shift_vertex :: "rvec \<Rightarrow> rvec \<Rightarrow> rvec" where
  "shift_vertex sh v =
     (case (sh, v) of ((sx, sy, sz), (x, y, z)) \<Rightarrow> (fadd x sx, fadd y sy, fadd z sz))"

definition shift :: "rvec \<Rightarrow> wavefront_obj_object \<Rightarrow> wavefront_obj_object" where
  "shift sh obj = obj\<lparr>vertices := map (shift_vertex sh) (vertices obj)\<rparr>"

text \<open>
  \<open>calculateCog\<close>: the sums of the components, each divided by \<open>vertices_.size()\<close>.
  There is no test for an empty vertex list.
\<close>

definition cog_add :: "rvec \<Rightarrow> rvec \<Rightarrow> rvec" where
  "cog_add v cog =
     (case (cog, v) of ((cx, cy, cz), (x, y, z)) \<Rightarrow> (fadd cx x, fadd cy y, fadd cz z))"

definition calculateCog :: "wavefront_obj_object \<Rightarrow> rvec" where
  "calculateCog obj =
     (case fold cog_add (vertices obj) (Fin 0, Fin 0, Fin 0) of
        (cx, cy, cz) \<Rightarrow>
          (fdiv_count cx (length (vertices obj)),
           fdiv_count cy (length (vertices obj)),
           fdiv_count cz (length (vertices obj))))"

text \<open>
  \<open>scale\<close>: shift by minus the centre of geometry, multiply every component by
  \<open>fac\<close>, multiply the shift vector by \<open>-fac\<close> and shift again.
\<close>

definition scale_vertex :: "fp \<Rightarrow> rvec \<Rightarrow> rvec" where
  "scale_vertex fac v = (case v of (x, y, z) \<Rightarrow> (fmul x fac, fmul y fac, fmul z fac))"

definition scale_shift :: "wavefront_obj_object \<Rightarrow> rvec" where
  "scale_shift obj = (case calculateCog obj of (cx, cy, cz) \<Rightarrow> (fneg cx, fneg cy, fneg cz))"

definition scale :: "fp \<Rightarrow> wavefront_obj_object \<Rightarrow> wavefront_obj_object" where
  "scale fac obj =
     (let sh = scale_shift obj;
          obj1 = shift sh obj;
          obj2 = obj1\<lparr>vertices := map (scale_vertex fac) (vertices obj1)\<rparr>;
          sh2 = scale_vertex (fneg fac) sh
      in shift sh2 obj2)"

text \<open>Vertices all of whose coordinates are finite numbers.\<close>

fun is_fin :: "fp \<Rightarrow> bool" where
  "is_fin (Fin a) = True"
| "is_fin _ = False"

definition finite_rvec :: "rvec \<Rightarrow> bool" where
  "finite_rvec v = (case v of (x, y, z) \<Rightarrow> is_fin x \<and> is_fin y \<and> is_fin z)"

definition finite_object :: "wavefront_obj_object \<Rightarrow> bool" where
  "finite_object obj = list_all finite_rvec (vertices obj)"

definition fin3 :: "real \<times> real \<times> real \<Rightarrow> rvec" where
  "fin3 v = (case v of (x, y, z) \<Rightarrow> (Fin x, Fin y, Fin z))"

subsection \<open>Single precision rounding\<close>

text \<open>
  \<open>real\<close> is the floating-point type of GROMACS, single precision in its default
  build (the annealing module writes the literal \<open>1.0f\<close>). \<open>fl32\<close> rounds a real number to
  the nearest binary32 number, ties to even: the significand has 24 bits, the exponent
  of the unit in the last place is not below -149, and a result of magnitude \<open>2 ^ 128\<close>
  or more is an infinity. \<open>rne\<close> rounds to the nearest integer, ties to even.
\<close>

definition rne :: "real \<Rightarrow> int" where
  "rne q =
     (let f = \<lfloor>q\<rfloor>
      in if q - of_int f < 1 / 2 then f
         else if 1 / 2 < q - of_int f then f + 1
         else if even f then f else f + 1)"

definition binade :: "real \<Rightarrow> int" where
  "binade x = max \<lfloor>log 2 \<bar>x\<bar>\<rfloor> (- 126)"

definition fl32 :: "real \<Rightarrow> fp" where
  "fl32 x =
     (if x = 0 then Fin 0
      else (let u = 2 powr of_int (binade x - 23);
                y = of_int (rne (x / u)) * u
            in if 2 ^ 128 \<le> \<bar>y\<bar> then finf x else Fin y))"

text \<open>
  The functions of \<open>WavefrontObjObject\<close> again, with the result of every addition,
  multiplication and division rounded by \<open>rnd\<close>; negation is exact, and so is the
  conversion of the vertex count for fewer than \<open>2 ^ 24\<close> vertices. With
  \<open>rnd = fl32\<close> this is the arithmetic of the program, with \<open>rnd = Fin\<close> it is the
  exact arithmetic of \<open>shift\<close>, \<open>calculateCog\<close> and \<open>scale\<close> above.
\<close>

definition rnd_fp :: "(real \<Rightarrow> fp) \<Rightarrow> fp \<Rightarrow> fp" where
  "rnd_fp rnd a = (case a of Fin x \<Rightarrow> rnd x | PInf \<Rightarrow> PInf | MInf \<Rightarrow> MInf | NaN \<Rightarrow> NaN)"

definition shift_vertex_fl :: "(real \<Rightarrow> fp) \<Rightarrow> rvec \<Rightarrow> rvec \<Rightarrow> rvec" where
  "shift_vertex_fl rnd sh v =
     (case (sh, v) of
        ((sx, sy, sz), (x, y, z)) \<Rightarrow>
          (rnd_fp rnd (fadd x sx), rnd_fp rnd (fadd y sy), rnd_fp rnd (fadd z sz)))"

definition shift_fl ::
  "(real \<Rightarrow> fp) \<Rightarrow> rvec \<Rightarrow> wavefront_obj_object \<Rightarrow> wavefront_obj_object" where
  "shift_fl rnd sh obj = obj\<lparr>vertices := map (shift_vertex_fl rnd sh) (vertices obj)\<rparr>"

definition cog_add_fl :: "(real \<Rightarrow> fp) \<Rightarrow> rvec \<Rightarrow> rvec \<Rightarrow> rvec" where
  "cog_add_fl rnd v cog =
     (case (cog, v) of
        ((cx, cy, cz), (x, y, z)) \<Rightarrow>
          (rnd_fp rnd (fadd cx x), rnd_fp rnd (fadd cy y), rnd_fp rnd (fadd cz z)))"

definition calculateCog_fl :: "(real \<Rightarrow> fp) \<Rightarrow> wavefront_obj_object \<Rightarrow> rvec" where
  "calculateCog_fl rnd obj =
     (case fold (cog_add_fl rnd) (vertices obj) (Fin 0, Fin 0, Fin 0) of
        (cx, cy, cz) \<Rightarrow>
          (rnd_fp rnd (fdiv_count cx (length (vertices obj))),
           rnd_fp rnd (fdiv_count cy (length (vertices obj))),
           rnd_fp rnd (fdiv_count cz (length (vertices obj)))))"

definition scale_vertex_fl :: "(real \<Rightarrow> fp) \<Rightarrow> fp \<Rightarrow> rvec \<Rightarrow> rvec" where
  "scale_vertex_fl rnd fac v =
     (case v of (x, y, z) \<Rightarrow>
        (rnd_fp rnd (fmul x fac), rnd_fp rnd (fmul y fac), rnd_fp rnd (fmul z fac)))"

definition scale_shift_fl :: "(real \<Rightarrow> fp) \<Rightarrow> wavefront_obj_object \<Rightarrow> rvec" where
  "scale_shift_fl rnd obj =
     (case calculateCog_fl rnd obj of (cx, cy, cz) \<Rightarrow> (fneg cx, fneg cy, fneg cz))"

definition scale_fl ::
  "(real \<Rightarrow> fp) \<Rightarrow> fp \<Rightarrow> wavefront_obj_object \<Rightarrow> wavefront_obj_object" where
  "scale_fl rnd fac obj =
     (let sh = scale_shift_fl rnd obj;
          obj1 = shift_fl rnd sh obj;
          obj2 = obj1\<lparr>vertices := map (scale_vertex_fl rnd fac) (vertices obj1)\<rparr>;
          sh2 = scale_vertex_fl rnd (fneg fac) sh
      in shift_fl rnd sh2 obj2)"

section \<open>Per-frame analysis (trajectory-analysis/trajectory-analysis.cpp, analyzeFrame)\<close>

subsection \<open>Mapped coordinates\<close>

text \<open>
  \<open>MolecularPath::mapSelection\<close> returns a \<open>std::map<int, gmx::RVec>\<close> from the index
  of a particle to its mapped coordinates. The map is an association list in
  ascending key order, which is the order in which the program iterates over it.
  The function is defined in another file (geometry/molecular\_path.cpp); its result
  is an input here.
\<close>

type_synonym mapped = "real \<times> real \<times> real"

text \<open>
  Modelled from the spec: the index constants \<open>SS\<close>, \<open>RR\<close>, \<open>PP\<close> are declared in a
  header that is not available; they select the components of the mapped coordinates
  in the order \<open>(s, \<rho>, \<phi>)\<close>, that is the components 0, 1 and 2.
\<close>

definition compSS :: "mapped \<Rightarrow> real" where
  "compSS c = fst c"

definition compRR :: "mapped \<Rightarrow> real" where
  "compRR c = fst (snd c)"

definition compPP :: "mapped \<Rightarrow> real" where
  "compPP c = snd (snd c)"

text \<open>
  Reading \<open>m[k]\<close> from a \<open>std::map\<close>: the stored value, or the value-initialised
  default \<open>d\<close> when the key is absent.
\<close>

definition at_or :: "'v \<Rightarrow> (int \<times> 'v) list \<Rightarrow> int \<Rightarrow> 'v" where
  "at_or d m k = (case map_of m k of Some v \<Rightarrow> v | None \<Rightarrow> d)"

subsection \<open>Pore-lining and pore-facing residues\<close>

text \<open>
  \<open>poreLining\<close> is the result of \<open>molPath.checkIfInside(poreCogMappedCoords,
  poreMappingMargin_)\<close>, a function defined in another file; it is an input here.
  The loop over \<open>poreCogMappedCoords\<close> sets the pore-facing flag of each residue;
  \<open>dflt\<close> is what \<open>poreCalMappedCoords[k]\<close> yields for a residue without a C-alpha
  entry.
\<close>

definition isPoreFacing ::
  "mapped \<Rightarrow> (int \<times> mapped) list \<Rightarrow> (int \<times> bool) list \<Rightarrow> int \<times> mapped \<Rightarrow> bool" where
  "isPoreFacing dflt poreCalMappedCoords poreLining it =
     (compRR (snd it) < compRR (at_or dflt poreCalMappedCoords (fst it))
      \<and> at_or False poreLining (fst it) = True)"

definition poreFacingMap ::
  "mapped \<Rightarrow> (int \<times> mapped) list \<Rightarrow> (int \<times> mapped) list \<Rightarrow> (int \<times> bool) list
     \<Rightarrow> (int \<times> bool) list" where
  "poreFacingMap dflt poreCogMappedCoords poreCalMappedCoords poreLining =
     map (\<lambda>it. (fst it, isPoreFacing dflt poreCalMappedCoords poreLining it))
       poreCogMappedCoords"

definition nPoreLining :: "(int \<times> bool) list \<Rightarrow> nat" where
  "nPoreLining poreLining = length (filter (\<lambda>jt. snd jt = True) poreLining)"

definition nPoreFacing :: "(int \<times> bool) list \<Rightarrow> nat" where
  "nPoreFacing poreFacing = length (filter (\<lambda>jt. snd jt = True) poreFacing)"

subsection \<open>Samples for the hydrophobicity profiles\<close>

text \<open>
  The loop over \<open>poreCogMappedCoords\<close> that collects the coordinates and
  hydrophobicities of the pore-lining and of the pore-facing residues, and tracks the
  smallest and largest arc-length coordinate of all mapped residues, starting from
  plus and minus infinity.
\<close>

record hp_samples =
  plResidueCoordS :: "fp list"
  plResidueHydrophobicity :: "real list"
  pfResidueCoordS :: "fp list"
  pfResidueHydrophobicity :: "real list"
  minPoreResS :: fp
  maxPoreResS :: fp

definition hp_init :: hp_samples where
  "hp_init =
     \<lparr>plResidueCoordS = [], plResidueHydrophobicity = [],
      pfResidueCoordS = [], pfResidueHydrophobicity = [],
      minPoreResS = PInf, maxPoreResS = MInf\<rparr>"

definition hpCollect ::
  "(int \<Rightarrow> real) \<Rightarrow> (int \<times> bool) list \<Rightarrow> (int \<times> bool) list \<Rightarrow> int \<times> mapped
     \<Rightarrow> hp_samples \<Rightarrow> hp_samples" where
  "hpCollect hydrophobicity poreLining poreFacing res h =
     (let h1 = (if at_or False poreLining (fst res)
                then h\<lparr>plResidueCoordS := plResidueCoordS h @ [Fin (compSS (snd res))],
                       plResidueHydrophobicity :=
                         plResidueHydrophobicity h @ [hydrophobicity (fst res)]\<rparr>
                else h);
          h2 = (if at_or False poreFacing (fst res)
                then h1\<lparr>pfResidueCoordS := pfResidueCoordS h1 @ [Fin (compSS (snd res))],
                        pfResidueHydrophobicity :=
                          pfResidueHydrophobicity h1 @ [hydrophobicity (fst res)]\<rparr>
                else h1);
          h3 = (if fless (Fin (compSS (snd res))) (minPoreResS h2)
                then h2\<lparr>minPoreResS := Fin (compSS (snd res))\<rparr>
                else h2)
      in if fless (maxPoreResS h3) (Fin (compSS (snd res)))
         then h3\<lparr>maxPoreResS := Fin (compSS (snd res))\<rparr>
         else h3)"

text \<open>The mock values pushed at both ends after the loop.\<close>

definition hpPad :: "real \<Rightarrow> hp_samples \<Rightarrow> hp_samples" where
  "hpPad hpBandWidth h =
     h\<lparr>pfResidueCoordS :=
         pfResidueCoordS h @ [fsub (minPoreResS h) (Fin (hpBandWidth / 2)),
                              fadd (maxPoreResS h) (Fin (hpBandWidth / 2))],
       pfResidueHydrophobicity := pfResidueHydrophobicity h @ [0, 0],
       plResidueCoordS :=
         plResidueCoordS h @ [fsub (minPoreResS h) (Fin (hpBandWidth / 2)),
                              fadd (maxPoreResS h) (Fin (hpBandWidth / 2))],
       plResidueHydrophobicity := plResidueHydrophobicity h @ [0, 0]\<rparr>"

definition hydrophobSamples ::
  "real \<Rightarrow> (int \<Rightarrow> real) \<Rightarrow> (int \<times> mapped) list \<Rightarrow> (int \<times> bool) list
     \<Rightarrow> (int \<times> bool) list \<Rightarrow> hp_samples" where
  "hydrophobSamples hpBandWidth hydrophobicity poreCogMappedCoords poreLining poreFacing =
     hpPad hpBandWidth
       (fold (hpCollect hydrophobicity poreLining poreFacing) poreCogMappedCoords hp_init)"

subsection \<open>Records of the per-frame stream\<close>

text \<open>
  The points written to data set 5 (solvent) and data set 4 (residues). The selection
  position of a particle (its mapped id and its Cartesian coordinates) and the radius
  and density at a residue come from outside this function; they are inputs.
\<close>

record solvent_record =
  solv_resId :: int
  solv_s :: real
  solv_rho :: real
  solv_phi :: real
  solv_insidePore :: bool
  solv_insideSample :: bool
  solv_x :: real
  solv_y :: real
  solv_z :: real

record residue_record =
  res_resId :: int
  res_s :: real
  res_rho :: fp
  res_phi :: real
  res_poreLining :: bool
  res_poreFacing :: bool
  res_poreRadius :: real
  res_solventDensity :: real
  res_x :: real
  res_y :: real
  res_z :: real

type_synonym position = "int \<times> real \<times> real \<times> real"

definition solventRecord ::
  "(int \<Rightarrow> position) \<Rightarrow> (int \<times> bool) list \<Rightarrow> (int \<times> bool) list \<Rightarrow> int \<times> mapped
     \<Rightarrow> solvent_record" where
  "solventRecord solvMapSel solvInsidePore solvInsideSample it =
     \<lparr>solv_resId = fst (solvMapSel (fst it)),
      solv_s = fst (snd it),
      solv_rho = fst (snd (snd it)),
      solv_phi = 0,
      solv_insidePore = at_or False solvInsidePore (fst it),
      solv_insideSample = at_or False solvInsideSample (fst it),
      solv_x = fst (snd (solvMapSel (fst it))),
      solv_y = fst (snd (snd (solvMapSel (fst it)))),
      solv_z = snd (snd (snd (solvMapSel (fst it))))\<rparr>"

text \<open>
  The solvent records are written only when the solvent selection is not empty.
\<close>

definition solventRecords ::
  "bool \<Rightarrow> (int \<Rightarrow> position) \<Rightarrow> (int \<times> bool) list \<Rightarrow> (int \<times> bool) list
     \<Rightarrow> (int \<times> mapped) list \<Rightarrow> solvent_record list" where
  "solventRecords selEmpty solvMapSel solvInsidePore solvInsideSample solventMappedCoords =
     (if \<not> selEmpty
      then map (solventRecord solvMapSel solvInsidePore solvInsideSample) solventMappedCoords
      else [])"

definition residueRecord ::
  "(int \<Rightarrow> position) \<Rightarrow> (int \<times> bool) list \<Rightarrow> (int \<times> bool) list
     \<Rightarrow> (int \<times> real) list \<Rightarrow> (int \<times> real) list \<Rightarrow> int \<times> mapped \<Rightarrow> residue_record" where
  "residueRecord poreMappingSelCog poreLining poreFacing poreRadiusAtResidue
     solventDensityAtResidue it =
     \<lparr>res_resId = fst (poreMappingSelCog (fst it)),
      res_s = compSS (snd it),
      res_rho = fsqrt (compRR (snd it)),
      res_phi = compPP (snd it),
      res_poreLining = at_or False poreLining (fst it),
      res_poreFacing = at_or False poreFacing (fst it),
      res_poreRadius = at_or 0 poreRadiusAtResidue (fst it),
      res_solventDensity = at_or 0 solventDensityAtResidue (fst it),
      res_x = fst (snd (poreMappingSelCog (fst it))),
      res_y = fst (snd (snd (poreMappingSelCog (fst it)))),
      res_z = snd (snd (snd (poreMappingSelCog (fst it))))\<rparr>"

definition residueRecords ::
  "(int \<Rightarrow> position) \<Rightarrow> (int \<times> bool) list \<Rightarrow> (int \<times> bool) list
     \<Rightarrow> (int \<times> real) list \<Rightarrow> (int \<times> real) list \<Rightarrow> (int \<times> mapped) list
     \<Rightarrow> residue_record list" where
  "residueRecords poreMappingSelCog poreLining poreFacing poreRadiusAtResidue
     solventDensityAtResidue poreCogMappedCoords =
     map (residueRecord poreMappingSelCog poreLining poreFacing poreRadiusAtResidue
            solventDensityAtResidue) poreCogMappedCoords"

subsection \<open>Names used in the statements about the samples\<close>

text \<open>
  The arc-length coordinates of a list of mapped residues, and the residues of a list
  whose flag is set in a map of flags.
\<close>

definition arcCoords :: "(int \<times> mapped) list \<Rightarrow> real list" where
  "arcCoords cog = map (\<lambda>res. compSS (snd res)) cog"

definition flagged :: "(int \<times> bool) list \<Rightarrow> (int \<times> mapped) list \<Rightarrow> (int \<times> mapped) list" where
  "flagged flags cog = filter (\<lambda>res. at_or False flags (fst res)) cog"

section \<open>Aggregation over frames (trajectory-analysis/trajectory-analysis.cpp, finishAnalysis)\<close>

subsection \<open>Summary statistics\<close>

text \<open>
  Modelled from the spec: the class \<open>SummaryStatistics\<close> (statistics/summary\_statistics.cpp
  is not available). It keeps the running count, mean, sum of squared deviations,
  minimum and maximum; \<open>update\<close> is one step of Welford's algorithm; \<open>shift\<close> adds a
  constant to mean, minimum and maximum; \<open>updateMultiple\<close> updates a vector of
  statistics point by point. The spec does not say what minimum and maximum are before
  the first update; they are 0 here and are set by the first update.
\<close>

record summary_statistics =
  ss_num :: nat
  ss_mean :: real
  ss_m2 :: real
  ss_min :: real
  ss_max :: real

definition ss_empty :: summary_statistics where
  "ss_empty = \<lparr>ss_num = 0, ss_mean = 0, ss_m2 = 0, ss_min = 0, ss_max = 0\<rparr>"

definition ss_update :: "real \<Rightarrow> summary_statistics \<Rightarrow> summary_statistics" where
  "ss_update x s =
     (let n = ss_num s + 1;
          delta = x - ss_mean s;
          mean1 = ss_mean s + delta / real n
      in \<lparr>ss_num = n,
          ss_mean = mean1,
          ss_m2 = ss_m2 s + delta * (x - mean1),
          ss_min = (if ss_num s = 0 then x else min (ss_min s) x),
          ss_max = (if ss_num s = 0 then x else max (ss_max s) x)\<rparr>)"

definition ss_shift :: "real \<Rightarrow> summary_statistics \<Rightarrow> summary_statistics" where
  "ss_shift c s =
     s\<lparr>ss_mean := ss_mean s + c, ss_min := ss_min s + c, ss_max := ss_max s + c\<rparr>"

definition updateMultiple ::
  "summary_statistics list \<Rightarrow> real list \<Rightarrow> summary_statistics list" where
  "updateMultiple stats xs = map (\<lambda>(s, x). ss_update x s) (zip stats xs)"

subsection \<open>Lines of the per-frame stream\<close>

text \<open>
  A line of the stream after \<open>lineDoc.ParseStream\<close>: either it is not a JSON object, or
  it is an object with the members the aggregator reads. The members of
  \<open>pathSummary\<close> are numbers; \<open>residuePositions.resId\<close> is a list of numbers; the
  splines and the other residue data are read by converters defined in other files and
  are kept as a value of type \<open>'s\<close>.
\<close>

record 's frame_doc =
  ps_timeStamp :: real
  ps_argMinRadius :: real
  ps_minRadius :: real
  ps_length :: real
  ps_volume :: real
  ps_numPath :: real
  ps_numSample :: real
  ps_solventRangeLo :: real
  ps_solventRangeHi :: real
  ps_argMinSolventDensity :: real
  ps_minSolventDensity :: real
  ps_arcLengthLo :: real
  ps_arcLengthHi :: real
  ps_bandWidth :: real
  rp_resId :: "real list"
  profiles :: 's

datatype 's json_line = NotObject | Object "'s frame_doc"

text \<open>The \<open>std::runtime_error\<close>s thrown by \<open>finishAnalysis\<close>.\<close>

datatype fa_error =
    LineNotJsonObject int
  | FramesReadMismatch
  | LinesProcessedMismatch
  | LinesCopiedMismatch

subsection \<open>First pass: scalar summaries\<close>

text \<open>
  The state of the first loop. The time-series vectors filled in the same loop body
  hold copies of the same numbers and are left out.
\<close>

record pass1 =
  argMinRadiusSummary :: summary_statistics
  minRadiusSummary :: summary_statistics
  lengthSummary :: summary_statistics
  volumeSummary :: summary_statistics
  numPathSummary :: summary_statistics
  numSampleSummary :: summary_statistics
  solventRangeLoSummary :: summary_statistics
  solventRangeHiSummary :: summary_statistics
  argMinSolventDensitySummary :: summary_statistics
  minSolventDensitySummary :: summary_statistics
  arcLengthLoSummary :: summary_statistics
  arcLengthHiSummary :: summary_statistics
  bandWidthSummary :: summary_statistics
  timeStamps :: "real list"
  numPoreRes :: nat
  poreResIds :: "int list"
  linesRead :: int

definition pass1_init :: pass1 where
  "pass1_init =
     \<lparr>argMinRadiusSummary = ss_empty, minRadiusSummary = ss_empty,
      lengthSummary = ss_empty, volumeSummary = ss_empty,
      numPathSummary = ss_empty, numSampleSummary = ss_empty,
      solventRangeLoSummary = ss_empty, solventRangeHiSummary = ss_empty,
      argMinSolventDensitySummary = ss_empty, minSolventDensitySummary = ss_empty,
      arcLengthLoSummary = ss_empty, arcLengthHiSummary = ss_empty,
      bandWidthSummary = ss_empty,
      timeStamps = [], numPoreRes = 0, poreResIds = [], linesRead = 0\<rparr>"

text \<open>The loop body for a line that is a JSON object.\<close>

definition pass1_line :: "'s frame_doc \<Rightarrow> pass1 \<Rightarrow> pass1" where
  "pass1_line d p =
     \<lparr>argMinRadiusSummary = ss_update (ps_argMinRadius d) (argMinRadiusSummary p),
      minRadiusSummary = ss_update (ps_minRadius d) (minRadiusSummary p),
      lengthSummary = ss_update (ps_length d) (lengthSummary p),
      volumeSummary = ss_update (ps_volume d) (volumeSummary p),
      numPathSummary = ss_update (ps_numPath d) (numPathSummary p),
      numSampleSummary = ss_update (ps_numSample d) (numSampleSummary p),
      solventRangeLoSummary = ss_update (ps_solventRangeLo d) (solventRangeLoSummary p),
      solventRangeHiSummary = ss_update (ps_solventRangeHi d) (solventRangeHiSummary p),
      argMinSolventDensitySummary =
        ss_update (ps_argMinSolventDensity d) (argMinSolventDensitySummary p),
      minSolventDensitySummary =
        ss_update (ps_minSolventDensity d) (minSolventDensitySummary p),
      arcLengthLoSummary = ss_update (ps_arcLengthLo d) (arcLengthLoSummary p),
      arcLengthHiSummary = ss_update (ps_arcLengthHi d) (arcLengthHiSummary p),
      bandWidthSummary = ss_update (ps_bandWidth d) (bandWidthSummary p),
      timeStamps = timeStamps p @ [ps_timeStamp d],
      numPoreRes = (if linesRead p = 0 then length (rp_resId d) else numPoreRes p),
      poreResIds =
        (if linesRead p = 0 then poreResIds p @ map real_to_int (rp_resId d)
         else poreResIds p),
      linesRead = linesRead p + 1\<rparr>"

text \<open>
  The first \<open>while(std::getline(inFile, line))\<close> loop: a line that is not a JSON object
  throws with the number of lines read so far, and the loop is left.
\<close>

fun firstPass :: "'s json_line list \<Rightarrow> pass1 \<Rightarrow> fa_error + pass1" where
  "firstPass [] p = Inr p"
| "firstPass (NotObject # ls) p = Inl (LineNotJsonObject (linesRead p))"
| "firstPass (Object d # ls) p = firstPass ls (pass1_line d p)"

subsection \<open>Support points\<close>

text \<open>
  \<open>numSupportPoints\<close> is a \<open>size_t\<close>: \<open>numSupportPoints - 1\<close> wraps around at zero.
  With one support point the step is a division by zero.
\<close>

definition supportPointsStep :: "nat \<Rightarrow> real \<Rightarrow> real \<Rightarrow> fp" where
  "supportPointsStep numSupportPoints supportPointsLo supportPointsHi =
     fdiv_count (Fin (supportPointsHi - supportPointsLo))
       (if numSupportPoints = 0 then 2 ^ 64 - 1 else numSupportPoints - 1)"

definition buildSupportPoints :: "nat \<Rightarrow> real \<Rightarrow> real \<Rightarrow> fp list" where
  "buildSupportPoints numSupportPoints supportPointsLo supportPointsHi =
     map (\<lambda>i. fadd (Fin supportPointsLo)
                 (fmul (Fin (real i))
                    (supportPointsStep numSupportPoints supportPointsLo supportPointsHi)))
       [0..<numSupportPoints]"

subsection \<open>Second pass: the energy profile\<close>

text \<open>
  The state of the second loop as far as the energy profile goes. The summaries of
  radius, density, hydrophobicity and of the residues are updated in the same loop body
  from other values of the line and do not enter the energy profile.

  Two computations of the loop body are done by classes defined in other files and are
  parameters here: \<open>energySample\<close> is the vector that \<open>bec.calculate\<close> returns for a line
  (the solvent density spline evaluated at the support points, converted to a number
  density and then to an energy); \<open>interp\<close> is the value at a point of the linear
  spline \<open>LinearSplineInterp1D\<close> builds through the support points and that vector.
\<close>

record pass2 =
  energySummary :: "summary_statistics list"
  anchorEnergyLo :: summary_statistics
  anchorEnergyHi :: summary_statistics
  linesProcessed :: int

definition pass2_init :: "nat \<Rightarrow> pass2" where
  "pass2_init n =
     \<lparr>energySummary = replicate n ss_empty,
      anchorEnergyLo = ss_empty, anchorEnergyHi = ss_empty, linesProcessed = 0\<rparr>"

definition pass2_line ::
  "(fp list \<Rightarrow> 's frame_doc \<Rightarrow> real list) \<Rightarrow> (fp list \<Rightarrow> real list \<Rightarrow> real \<Rightarrow> real)
     \<Rightarrow> fp list \<Rightarrow> real \<Rightarrow> real \<Rightarrow> 's frame_doc \<Rightarrow> pass2 \<Rightarrow> pass2" where
  "pass2_line energySample interp supportPoints anchorPointLo anchorPointHi d p =
     (let es = energySample supportPoints d
      in \<lparr>energySummary = updateMultiple (energySummary p) es,
          anchorEnergyLo = ss_update (interp supportPoints es anchorPointLo) (anchorEnergyLo p),
          anchorEnergyHi = ss_update (interp supportPoints es anchorPointHi) (anchorEnergyHi p),
          linesProcessed = linesProcessed p + 1\<rparr>)"

fun secondPass ::
  "(fp list \<Rightarrow> 's frame_doc \<Rightarrow> real list) \<Rightarrow> (fp list \<Rightarrow> real list \<Rightarrow> real \<Rightarrow> real)
     \<Rightarrow> fp list \<Rightarrow> real \<Rightarrow> real \<Rightarrow> 's json_line list \<Rightarrow> pass2 \<Rightarrow> fa_error + pass2" where
  "secondPass energySample interp pts lo hi [] p = Inr p"
| "secondPass energySample interp pts lo hi (NotObject # ls) p =
     Inl (LineNotJsonObject (linesProcessed p))"
| "secondPass energySample interp pts lo hi (Object d # ls) p =
     secondPass energySample interp pts lo hi ls
       (pass2_line energySample interp pts lo hi d p)"

text \<open>The shift of the energy profile after the second loop.\<close>

definition energyShift :: "pass2 \<Rightarrow> real" where
  "energyShift p = - 0.5 * (ss_mean (anchorEnergyLo p) + ss_mean (anchorEnergyHi p))"

definition shiftEnergy :: "pass2 \<Rightarrow> pass2" where
  "shiftEnergy p = p\<lparr>energySummary := map (ss_shift (energyShift p)) (energySummary p)\<rparr>"

subsection \<open>The whole of finishAnalysis\<close>

record fa_output =
  out_scalars :: pass1
  out_supportPoints :: "fp list"
  out_profiles :: pass2

definition finishAnalysis ::
  "(fp list \<Rightarrow> 's frame_doc \<Rightarrow> real list) \<Rightarrow> (fp list \<Rightarrow> real list \<Rightarrow> real \<Rightarrow> real)
     \<Rightarrow> nat \<Rightarrow> real \<Rightarrow> int \<Rightarrow> 's json_line list \<Rightarrow> fa_error + fa_output" where
  "finishAnalysis energySample interp outputNumPoints outputExtrapDist numFrames inFile =
     (case firstPass inFile pass1_init of
        Inl e \<Rightarrow> Inl e
      | Inr p1 \<Rightarrow>
          if linesRead p1 \<noteq> numFrames then Inl FramesReadMismatch
          else
            (let supportPointsLo = ss_min (arcLengthLoSummary p1) - outputExtrapDist;
                 supportPointsHi = ss_max (arcLengthHiSummary p1) + outputExtrapDist;
                 supportPoints =
                   buildSupportPoints outputNumPoints supportPointsLo supportPointsHi;
                 anchorPointLo = ss_min (arcLengthLoSummary p1);
                 anchorPointHi = ss_max (arcLengthHiSummary p1)
             in case secondPass energySample interp supportPoints anchorPointLo
                       anchorPointHi inFile (pass2_init (length supportPoints)) of
                  Inl e \<Rightarrow> Inl e
                | Inr p2 \<Rightarrow>
                    (let p3 = shiftEnergy p2
                     in if linesProcessed p3 \<noteq> numFrames then Inl LinesProcessedMismatch
                        else if int (length inFile) \<noteq> numFrames then Inl LinesCopiedMismatch
                        else Inr \<lparr>out_scalars = p1, out_supportPoints = supportPoints,
                                  out_profiles = p3\<rparr>)))"

subsection \<open>Names used in the statements about the aggregation\<close>

text \<open>
  The lines that are JSON objects, the documents of those lines, the arithmetic mean of
  a list, and the summary statistics of a list of numbers fed one by one.
\<close>

fun is_object :: "'s json_line \<Rightarrow> bool" where
  "is_object NotObject = False"
| "is_object (Object d) = True"

fun frame_docs :: "'s json_line list \<Rightarrow> 's frame_doc list" where
  "frame_docs [] = []"
| "frame_docs (NotObject # ls) = frame_docs ls"
| "frame_docs (Object d # ls) = d # frame_docs ls"

definition average :: "real list \<Rightarrow> real" where
  "average xs = sum_list xs / real (length xs)"

definition summarise :: "real list \<Rightarrow> summary_statistics" where
  "summarise xs = fold ss_update xs ss_empty"

text \<open>
  A line with given pathway ends and minimal radius, an energy sample that is the
  minimal radius of the line at every support point, and an interpolation that returns
  the first entry of the sample.
\<close>

definition frame_example :: "real \<Rightarrow> real \<Rightarrow> real \<Rightarrow> unit frame_doc" where
  "frame_example lo hi r =
     \<lparr>ps_timeStamp = 0, ps_argMinRadius = 0, ps_minRadius = r, ps_length = hi - lo,
      ps_volume = 1, ps_numPath = 0, ps_numSample = 0, ps_solventRangeLo = lo,
      ps_solventRangeHi = hi, ps_argMinSolventDensity = 0, ps_minSolventDensity = 0,
      ps_arcLengthLo = lo, ps_arcLengthHi = hi, ps_bandWidth = 1,
      rp_resId = [], profiles = ()\<rparr>"

definition sampleConst :: "fp list \<Rightarrow> unit frame_doc \<Rightarrow> real list" where
  "sampleConst pts d = map (\<lambda>p. ps_minRadius d) pts"

definition interpFirst :: "fp list \<Rightarrow> real list \<Rightarrow> real \<Rightarrow> real" where
  "interpFirst pts es a = (case es of [] \<Rightarrow> 0 | e # _ \<Rightarrow> e)"

text \<open>
  In the words of the spec: the anchor points are the smallest \<open>sLo\<close> and the largest
  \<open>sHi\<close> over the frames; the anchor energies of the frames are the energies
  interpolated at an anchor point; the shift is minus half the sum of the two mean anchor
  energies. \<open>energyBeforeShift\<close> is the energy summary accumulated over the frames.
\<close>

definition anchorLo :: "'s json_line list \<Rightarrow> real" where
  "anchorLo ls = Min (set (map ps_arcLengthLo (frame_docs ls)))"

definition anchorHi :: "'s json_line list \<Rightarrow> real" where
  "anchorHi ls = Max (set (map ps_arcLengthHi (frame_docs ls)))"

definition anchorEnergies ::
  "(fp list \<Rightarrow> 's frame_doc \<Rightarrow> real list) \<Rightarrow> (fp list \<Rightarrow> real list \<Rightarrow> real \<Rightarrow> real)
     \<Rightarrow> fp list \<Rightarrow> real \<Rightarrow> 's json_line list \<Rightarrow> real list" where
  "anchorEnergies es it pts a ls = map (\<lambda>d. it pts (es pts d) a) (frame_docs ls)"

definition anchorShift ::
  "(fp list \<Rightarrow> 's frame_doc \<Rightarrow> real list) \<Rightarrow> (fp list \<Rightarrow> real list \<Rightarrow> real \<Rightarrow> real)
     \<Rightarrow> fp list \<Rightarrow> 's json_line list \<Rightarrow> real" where
  "anchorShift es it pts ls =
     - (average (anchorEnergies es it pts (anchorLo ls) ls)
        + average (anchorEnergies es it pts (anchorHi ls) ls)) / 2"

definition energyBeforeShift ::
  "(fp list \<Rightarrow> 's frame_doc \<Rightarrow> real list) \<Rightarrow> fp list \<Rightarrow> 's json_line list
     \<Rightarrow> summary_statistics list" where
  "energyBeforeShift es pts ls =
     fold (\<lambda>d stats. updateMultiple stats (es pts d)) (frame_docs ls)
       (replicate (length pts) ss_empty)"

section \<open>Properties of the simulated annealing module\<close>

lemma fold_candStep_frame:
  "\<exists>cs r. fold candStep js k = k\<lparr>candState := cs, rng := r\<rparr>"
proof (induction js arbitrary: k)
  case Nil
  have "k = k\<lparr>candState := candState k, rng := rng k\<rparr>" by simp
  then show ?case by (metis fold_simps(1))
next
  case (Cons j js)
  obtain c1 r1 where s: "candStep j k = k\<lparr>candState := c1, rng := r1\<rparr>"
    by (simp add: candStep_def case_prod_beta)
  from Cons [of "k\<lparr>candState := c1, rng := r1\<rparr>"]
  obtain cs r where "fold candStep js (k\<lparr>candState := c1, rng := r1\<rparr>)
      = k\<lparr>candState := c1, rng := r1\<rparr>\<lparr>candState := cs, rng := r\<rparr>" by blast
  then have "fold candStep (j # js) k = k\<lparr>candState := cs, rng := r\<rparr>"
    by (simp add: s)
  then show ?case by blast
qed

lemma proposeCandidate_frame:
  "proposeCandidate m =
     m\<lparr>candState := candidate m, rng := rng (proposeCandidate m),
       candCost := objFun m (candidate m)\<rparr>"
proof -
  obtain cs r where g: "generateCandidateStateIsotropic m = m\<lparr>candState := cs, rng := r\<rparr>"
    unfolding generateCandidateStateIsotropic_def
    using fold_candStep_frame [of "[0..<stateDim m]" m] by blast
  then show ?thesis
    by (simp add: proposeCandidate_def candidate_def Let_def)
qed

lemma accepted_eq:
  "accepted m = acceptTest (objFun m (candidate m)) (crntCost m) (temp m) (accDraw m)"
  by (subst accepted_def, subst proposeCandidate_frame)
     (simp add: acceptCandidateState_def case_prod_beta accDraw_def)

lemma annealStep_eq:
  "annealStep m =
     (let m3 = m\<lparr>candState := candidate m,
                 candCost := objFun m (candidate m),
                 rng := snd (candAccDistr m (rng (proposeCandidate m)))\<rparr>
      in cool (if accepted m then takeCandidate m3 else m3))"
  apply (simp only: annealStep_def accepted_def Let_def)
  apply (subst (1 2 3 4) proposeCandidate_frame)
  apply (simp add: acceptCandidateState_def case_prod_beta)
  done


lemma annealStep_fields:
  "maxCoolingIter (annealStep m) = maxCoolingIter m"
  "objFun (annealStep m) = objFun m"
  "coolingFactor (annealStep m) = coolingFactor m"
  "temp (annealStep m) = temp m * coolingFactor m"
  by (simp_all add: annealStep_eq Let_def cool_def takeCandidate_def)

lemma annealStep_best_cost:
  assumes "bestCost m = objFun m (bestState m)"
  shows "bestCost (annealStep m) = objFun (annealStep m) (bestState (annealStep m))"
  using assms by (simp add: annealStep_eq Let_def cool_def takeCandidate_def)

lemma annealStep_crnt_cost:
  assumes "crntCost m = objFun m (crntState m)"
  shows "crntCost (annealStep m) = objFun (annealStep m) (crntState (annealStep m))"
  using assms by (simp add: annealStep_eq Let_def cool_def takeCandidate_def)

text \<open>
  Claim C1. In one iteration at a temperature other than zero, from a state whose stored
  costs are the objective values of its current and best state, the candidate is
  accepted exactly when the uniform draw is below
  \<open>min (exp ((g cand - g cur) / T)) 1\<close>; the current state becomes the candidate on
  acceptance and stays otherwise; the best state becomes the candidate exactly when the
  candidate is accepted and \<open>g cand > g best\<close>; the temperature is multiplied by the
  cooling factor.
\<close>

theorem annealStep_metropolis:
  assumes "temp m \<noteq> 0"
    and "crntCost m = objFun m (crntState m)"
    and "bestCost m = objFun m (bestState m)"
  shows "(accepted m \<longleftrightarrow>
            accDraw m < min (exp ((objFun m (candidate m) - objFun m (crntState m)) / temp m)) 1)
    \<and> crntState (annealStep m) = (if accepted m then candidate m else crntState m)
    \<and> bestState (annealStep m) =
        (if accepted m \<and> objFun m (bestState m) < objFun m (candidate m)
         then candidate m else bestState m)
    \<and> temp (annealStep m) = coolingFactor m * temp m"
  using assms
  by (simp add: accepted_eq acceptTest_def annealStep_eq Let_def cool_def takeCandidate_def)

text \<open>The same at the example module, where the candidate \<open>[1]\<close> is accepted.\<close>

theorem annealStep_metropolis_witness:
  "temp (sa_example 3) \<noteq> 0
   \<and> accepted (sa_example 3)
   \<and> crntState (annealStep (sa_example 3)) = [1]
   \<and> bestState (annealStep (sa_example 3)) = [1]
   \<and> temp (annealStep (sa_example 3)) = 1 / 2"
  using annealStep_metropolis [of "sa_example 3"]
  by (simp add: sa_example_def candidate_def accDraw_def proposeCandidate_def
      generateCandidateStateIsotropic_def candStep_def)

text \<open>
  At a positive temperature, with a draw below one and a current cost that is not above
  the best cost, a candidate better than the best state is always accepted: then the
  best state is replaced exactly when \<open>g cand > g best\<close>.
\<close>

lemma better_than_best_accepted:
  assumes "0 < temp m" and "accDraw m < 1" and "crntCost m \<le> bestCost m"
    and "bestCost m < objFun m (candidate m)"
  shows "accepted m"
  using assms by (simp add: accepted_eq acceptTest_def)


lemma annealLoop_funpow:
  "annealLoop n m = (annealStep ^^ nat (max 1 (maxCoolingIter m - n))) m"
proof (induction n m rule: annealLoop.induct)
  case (1 n m)
  show ?case
  proof (cases "maxCoolingIter m \<le> n + 1")
    case True
    then have "nat (max 1 (maxCoolingIter m - n)) = 1" by simp
    moreover from True have "annealLoop n m = annealStep m"
      by (subst annealLoop.simps) (simp add: annealStep_fields)
    ultimately show ?thesis by simp
  next
    case False
    then have run: "\<not> maxCoolingIter (annealStep m) \<le> n + 1"
      by (simp add: annealStep_fields)
    from False have k: "nat (max 1 (maxCoolingIter m - n))
        = Suc (nat (max 1 (maxCoolingIter m - (n + 1))))" by simp
    from run have "annealLoop n m = annealLoop (n + 1) (annealStep m)"
      by (subst annealLoop.simps) simp
    also have "\<dots> = (annealStep ^^ nat (max 1 (maxCoolingIter m - (n + 1)))) (annealStep m)"
      using "1.IH" [OF refl refl run] by (simp add: annealStep_fields)
    also have "\<dots> = (annealStep ^^ nat (max 1 (maxCoolingIter m - n))) m"
      by (simp only: k funpow_Suc_right comp_apply)
    finally show ?thesis .
  qed
qed

lemma funpow_annealStep_inv:
  assumes "bestCost m = objFun m (bestState m)"
  shows "objFun ((annealStep ^^ k) m) = objFun m
    \<and> maxCoolingIter ((annealStep ^^ k) m) = maxCoolingIter m
    \<and> bestCost ((annealStep ^^ k) m) = objFun m (bestState ((annealStep ^^ k) m))
    \<and> bestCost m \<le> bestCost ((annealStep ^^ k) m)"
proof (induction k)
  case 0
  from assms show ?case by simp
next
  case (Suc k)
  let ?x = "(annealStep ^^ k) m"
  from Suc have b: "bestCost ?x = objFun ?x (bestState ?x)" by simp
  have mono: "bestCost ?x \<le> bestCost (annealStep ?x)"
    by (simp add: annealStep_eq Let_def cool_def takeCandidate_def)
  from Suc annealStep_best_cost [OF b] mono show ?case
    by (simp add: annealStep_fields)
qed

text \<open>
  The annealing loop runs the iteration \<open>max 1 maxCoolingIter\<close> times and stops: as
  many times as the bound says when the bound is at least one. The point returned
  afterwards is the best state together with its objective value, which is not below the
  objective value of the initial best state.
\<close>

lemma annealIsotropic_iterations:
  "annealIsotropic m = (annealStep ^^ nat (max 1 (maxCoolingIter m))) m
   \<and> getOptimPoint (optimise m)
       = (bestState (optimise m), objFun m (bestState (optimise m)))
   \<and> objFun m (bestState m) \<le> snd (getOptimPoint (optimise m))"
proof -
  let ?m0 = "m\<lparr>crntCost := objFun m (crntState m),
                candCost := objFun m (candState m),
                bestCost := objFun m (bestState m)\<rparr>"
  let ?k = "nat (max 1 (maxCoolingIter m))"
  have it: "annealIsotropic x = (annealStep ^^ nat (max 1 (maxCoolingIter x))) x" for x :: "'a sa_module"
    unfolding annealIsotropic_def by (subst annealLoop_funpow) simp
  have opt: "optimise m = (annealStep ^^ ?k) ?m0"
    by (simp add: optimise_def anneal_def it)
  have "bestCost ?m0 = objFun ?m0 (bestState ?m0)" by simp
  from funpow_annealStep_inv [OF this, of ?k]
  have "bestCost (optimise m) = objFun m (bestState (optimise m))"
    and "objFun m (bestState m) \<le> bestCost (optimise m)"
    by (simp_all add: opt)
  with it show ?thesis by (simp add: getOptimPoint_def)
qed

text \<open>
  Claim C2. The run is to do exactly \<open>maxCoolingIter\<close> iterations, none when the bound
  is zero. At the example module with the bound zero the loop does one iteration: the
  whole run cools the temperature once, from 1 to 1/2, and moves the current state from
  \<open>[0]\<close> to \<open>[1]\<close>.
\<close>

theorem annealIsotropic_zero_runs_once:
  "maxCoolingIter (sa_example 0) = 0
   \<and> annealIsotropic (sa_example 0) = annealStep (sa_example 0)
   \<and> temp (sa_example 0) = 1
   \<and> temp (annealIsotropic (sa_example 0)) = 1 / 2
   \<and> crntState (sa_example 0) = [0]
   \<and> crntState (annealIsotropic (sa_example 0)) = [1]
   \<and> optimise (sa_example 0) = annealIsotropic (sa_example 0)"
proof -
  have o: "optimise (sa_example 0) = annealIsotropic (sa_example 0)"
    by (simp add: optimise_def anneal_def sa_example_def)
  have l: "annealIsotropic (sa_example 0) = annealStep (sa_example 0)"
    unfolding annealIsotropic_def
    by (subst annealLoop.simps) (simp add: annealStep_fields sa_example_def)
  have "temp (annealStep (sa_example 0)) = 1 / 2"
    by (simp add: annealStep_fields sa_example_def)
  moreover have "crntState (annealStep (sa_example 0)) = [1]"
    by (simp add: annealStep_eq accepted_eq acceptTest_def Let_def cool_def takeCandidate_def
        sa_example_def candidate_def accDraw_def proposeCandidate_def
        generateCandidateStateIsotropic_def candStep_def)
  ultimately show ?thesis using l o by (simp add: sa_example_def)
qed

text \<open>
  Claim C3, as amended. \<open>setParams\<close> fails exactly when one of the four keys
  \<open>saMaxCoolingIter\<close>, \<open>saInitTemp\<close>, \<open>saCoolingFactor\<close>, \<open>saStepLengthFactor\<close>
  is absent. When it succeeds it stores the four values as they are given, whatever
  they are, and the seed when one is given; without a seed it keeps the seed it had.
\<close>

theorem setParams_required:
  "(isl (setParams ps m) \<longleftrightarrow>
      ps ''saMaxCoolingIter'' = None \<or> ps ''saInitTemp'' = None
      \<or> ps ''saCoolingFactor'' = None \<or> ps ''saStepLengthFactor'' = None)
   \<and> (\<forall>m1. setParams ps m = Inr m1 \<longrightarrow>
         m1 = m\<lparr>seed := (case ps ''saSeed'' of None \<Rightarrow> seed m | Some v \<Rightarrow> real_to_int v),
                maxCoolingIter := real_to_int (the (ps ''saMaxCoolingIter'')),
                temp := the (ps ''saInitTemp''),
                coolingFactor := the (ps ''saCoolingFactor''),
                stepLengthFactor := the (ps ''saStepLengthFactor'')\<rparr>)"
  by (auto simp: setParams_def Let_def split: option.splits)

text \<open>
  The same at two parameter maps: one without a seed, which is accepted, and one
  without a step length factor, which is refused.
\<close>

theorem setParams_required_witness:
  "\<not> isl (setParams [''saMaxCoolingIter'' \<mapsto> 10, ''saInitTemp'' \<mapsto> 1,
            ''saCoolingFactor'' \<mapsto> 1 / 2, ''saStepLengthFactor'' \<mapsto> 1 / 10] (sa_example 0))
   \<and> isl (setParams [''saSeed'' \<mapsto> 7, ''saMaxCoolingIter'' \<mapsto> 10, ''saInitTemp'' \<mapsto> 1,
            ''saCoolingFactor'' \<mapsto> 1 / 2] (sa_example 0))"
  using setParams_required [of "[''saMaxCoolingIter'' \<mapsto> 10, ''saInitTemp'' \<mapsto> 1,
            ''saCoolingFactor'' \<mapsto> 1 / 2, ''saStepLengthFactor'' \<mapsto> 1 / 10]" "sa_example 0"]
    setParams_required [of "[''saSeed'' \<mapsto> 7, ''saMaxCoolingIter'' \<mapsto> 10, ''saInitTemp'' \<mapsto> 1,
            ''saCoolingFactor'' \<mapsto> 1 / 2]" "sa_example 0"]
  by simp

text \<open>
  Claim C3 as stated says that a missing seed, a temperature that is not positive and a
  cooling factor outside (0,1) are refused. A map without seed, with temperature -1 and
  cooling factor 2 is accepted as it is.
\<close>

theorem setParams_unchecked_counterexample:
  "setParams [''saMaxCoolingIter'' \<mapsto> 10, ''saInitTemp'' \<mapsto> - 1,
      ''saCoolingFactor'' \<mapsto> 2, ''saStepLengthFactor'' \<mapsto> 1 / 10] (sa_example 0)
   = Inr ((sa_example 0)\<lparr>maxCoolingIter := 10, temp := - 1, coolingFactor := 2,
            stepLengthFactor := 1 / 10\<rparr>)"
  by (simp add: setParams_def real_to_int_def)

section \<open>Properties of the Wavefront OBJ object\<close>


lemma fold_cog_add_fin:
  "fold cog_add (map fin3 vs) (Fin a, Fin b, Fin c) =
     (Fin (a + sum_list (map fst vs)),
      Fin (b + sum_list (map (fst \<circ> snd) vs)),
      Fin (c + sum_list (map (snd \<circ> snd) vs)))"
  by (induction vs arbitrary: a b c) (auto simp: cog_add_def fin3_def add.assoc)

lemma calculateCog_fin:
  assumes "vertices obj = map fin3 vs" and "vs \<noteq> []"
  shows "calculateCog obj =
     fin3 (sum_list (map fst vs) / real (length vs),
       sum_list (map (fst \<circ> snd) vs) / real (length vs),
       sum_list (map (snd \<circ> snd) vs) / real (length vs))"
  using assms fold_cog_add_fin [of vs 0 0 0]
  by (simp add: calculateCog_def fin3_def)

lemma scale_fin:
  assumes "vertices obj = map fin3 vs" and "vs \<noteq> []"
  shows "scale (Fin fac) obj =
     obj\<lparr>vertices := map (\<lambda>(x, y, z). fin3 (x * fac, y * fac, z * fac)) vs\<rparr>"
  using assms
  by (simp add: scale_def scale_shift_def calculateCog_fin shift_def Let_def
       scale_vertex_def shift_vertex_def fin3_def case_prod_beta algebra_simps)

lemma is_fin_ex: "is_fin x \<Longrightarrow> \<exists>a. x = Fin a"
  by (cases x) simp_all

lemma finite_rvec_ex: "finite_rvec v \<Longrightarrow> \<exists>w. v = fin3 w"
  by (auto simp: finite_rvec_def fin3_def dest!: is_fin_ex)

lemma finite_vertices_ex: "list_all finite_rvec xs \<Longrightarrow> \<exists>vs. xs = map fin3 vs"
proof (induction xs)
  case Nil
  then show ?case by simp
next
  case (Cons x xs)
  from Cons.prems have "finite_rvec x" and "list_all finite_rvec xs" by simp_all
  from finite_rvec_ex [OF this(1)] obtain w where "x = fin3 w" by blast
  moreover from Cons.IH [OF \<open>list_all finite_rvec xs\<close>] obtain vs where "xs = map fin3 vs"
    by blast
  ultimately have "x # xs = map fin3 (w # vs)" by simp
  then show ?case by (rule exI)
qed

lemma scale_vertex_fin3:
  "scale_vertex (Fin fac) (fin3 (x, y, z)) = fin3 (x * fac, y * fac, z * fac)"
  by (simp add: scale_vertex_def fin3_def)

lemma sum_list_times: "sum_list (map (\<lambda>v. f v * fac) vs) = sum_list (map f vs) * (fac::real)"
  by (induction vs) (simp_all add: algebra_simps)

text \<open>
  In exact arithmetic, for an object with at least one vertex, all coordinates finite,
  \<open>scale\<close> with a finite factor gives the object whose every vertex is multiplied
  component by component by the factor, and the centre of geometry is multiplied by the
  factor.
\<close>

lemma scale_exact_arithmetic:
  assumes "finite_object obj" and "vertices obj \<noteq> []"
  shows "scale (Fin fac) obj = obj\<lparr>vertices := map (scale_vertex (Fin fac)) (vertices obj)\<rparr>
    \<and> calculateCog (scale (Fin fac) obj) = scale_vertex (Fin fac) (calculateCog obj)"
proof -
  from assms(1) obtain vs where vs: "vertices obj = map fin3 vs"
    using finite_vertices_ex unfolding finite_object_def by blast
  with assms(2) have ne: "vs \<noteq> []" by auto
  let ?ws = "map (\<lambda>(x, y, z). (x * fac, y * fac, z * fac)) vs"
  have m: "map (scale_vertex (Fin fac)) (vertices obj) = map fin3 ?ws"
    by (simp add: vs scale_vertex_fin3 case_prod_beta scale_vertex_def fin3_def)
  have s: "scale (Fin fac) obj = obj\<lparr>vertices := map fin3 ?ws\<rparr>"
    using scale_fin [OF vs ne, of fac] by (simp add: case_prod_beta comp_def)
  have v2: "vertices (scale (Fin fac) obj) = map fin3 ?ws" by (simp add: s)
  have ne2: "?ws \<noteq> []" using ne by simp
  have "calculateCog (scale (Fin fac) obj) = scale_vertex (Fin fac) (calculateCog obj)"
    by (simp add: calculateCog_fin [OF v2 ne2] calculateCog_fin [OF vs ne]
        scale_vertex_fin3 comp_def case_prod_beta sum_list_times)
  with s m show ?thesis by simp
qed

lemma rne_bounds: "q - 1 \<le> of_int (rne q)" "of_int (rne q) \<le> q + 1"
  unfolding rne_def Let_def by (auto; linarith)+

lemma fl32_binade:
  assumes lo: "2 ^ k \<le> \<bar>x\<bar>" and hi: "\<bar>x\<bar> < 2 ^ Suc k" and k: "k \<le> 23"
  shows "fl32 x = Fin (of_int (rne (x * 2 ^ (23 - k))) / 2 ^ (23 - k))"
proof -
  from lo have x0: "x \<noteq> 0" and pos: "0 < \<bar>x\<bar>"
    by (auto simp: abs_if split: if_splits intro: less_le_trans [of 0 "2 ^ k"])
  have "\<lfloor>log 2 \<bar>x\<bar>\<rfloor> = int k"
    using lo hi pos
    by (subst floor_log_eq_powr_iff) (simp_all add: powr_realpow powr_add)
  then have b: "binade x = int k" by (simp add: binade_def)
  have u: "(2::real) powr of_int (binade x - 23) = 1 / 2 ^ (23 - k)"
  proof -
    have "real_of_int (int k - 23) = - real (23 - k)" using k by simp
    then have "(2::real) powr of_int (binade x - 23) = 2 powr (- real (23 - k))"
      by (simp only: b)
    also have "\<dots> = 1 / 2 ^ (23 - k)"
      by (simp add: powr_minus powr_realpow divide_inverse)
    finally show ?thesis .
  qed
  let ?q = "x * 2 ^ (23 - k)"
  let ?y = "of_int (rne ?q) / (2::real) ^ (23 - k)"
  have p1: "(1::real) \<le> 2 ^ (23 - k)" by simp
  have "\<bar>of_int (rne ?q)\<bar> \<le> \<bar>?q\<bar> + 1"
    using rne_bounds [of ?q] by linarith
  then have "\<bar>?y\<bar> \<le> (\<bar>?q\<bar> + 1) / 2 ^ (23 - k)"
    by (simp add: divide_right_mono)
  also have "\<dots> = \<bar>x\<bar> + 1 / 2 ^ (23 - k)"
    by (simp add: abs_mult field_simps)
  also have "\<dots> \<le> \<bar>x\<bar> + 1" using p1 by (simp add: field_simps)
  also have "\<dots> < 2 ^ Suc k + 1" using hi by simp
  also have "\<dots> \<le> 2 ^ 24 + 1"
    using k power_increasing [of "Suc k" 24 "2::real"] by simp
  finally have small: "\<not> 2 ^ 128 \<le> \<bar>?y\<bar>" by simp
  have "fl32 x = (if 2 ^ 128 \<le> \<bar>?y\<bar> then finf x else Fin ?y)"
    unfolding fl32_def Let_def u using x0 by simp
  with small show ?thesis by (simp only: if_False)
qed

text \<open>With exact rounding the rounded functions are the exact ones.\<close>

lemma rnd_fp_exact: "rnd_fp Fin a = a"
  by (cases a) (simp_all add: rnd_fp_def)

lemma exact_rounding:
  "shift_vertex_fl Fin = shift_vertex"
  "cog_add_fl Fin = cog_add"
  "scale_vertex_fl Fin = scale_vertex"
  by (auto simp: fun_eq_iff shift_vertex_fl_def shift_vertex_def cog_add_fl_def cog_add_def
      scale_vertex_fl_def scale_vertex_def rnd_fp_exact)

lemma scale_fl_exact:
  "calculateCog_fl Fin obj = calculateCog obj"
  "scale_fl Fin fac obj = scale fac obj"
  by (simp_all add: calculateCog_fl_def calculateCog_def scale_fl_def scale_def
      scale_shift_fl_def scale_shift_def shift_fl_def shift_def exact_rounding rnd_fp_exact
      fun_eq_iff)

text \<open>The rules that evaluate \<open>fl32\<close> at numbers between 1 and 64, and at zero.\<close>

lemma fl32_zero: "fl32 0 = Fin 0"
  by (simp add: fl32_def)

lemmas fl32_eval =
  fl32_zero fl32_binade [of 0] fl32_binade [of 1] fl32_binade [of 2] fl32_binade [of 3]
  fl32_binade [of 4] fl32_binade [of 5]

lemmas scale_fl_eval =
  scale_fl_def scale_shift_fl_def calculateCog_fl_def cog_add_fl_def shift_fl_def
  shift_vertex_fl_def scale_vertex_fl_def rnd_fp_def Let_def

text \<open>
  Claim C9, as amended. For an object with at least one vertex, all coordinates finite,
  and a finite factor: when every operation of \<open>scale\<close> is exact (the rounding is
  \<open>Fin\<close>), \<open>scale\<close> gives the object whose every vertex is multiplied component by
  component by the factor, and the centre of geometry of the scaled object is the old
  centre of geometry multiplied by the factor.
\<close>

theorem scale_exact_multiplies_vertices:
  assumes "finite_object obj" and "vertices obj \<noteq> []"
  shows "scale_fl Fin (Fin fac) obj
           = obj\<lparr>vertices := map (scale_vertex_fl Fin (Fin fac)) (vertices obj)\<rparr>
    \<and> calculateCog_fl Fin (scale_fl Fin (Fin fac) obj)
           = scale_vertex_fl Fin (Fin fac) (calculateCog_fl Fin obj)"
  unfolding scale_fl_exact exact_rounding
  by (rule scale_exact_arithmetic [OF assms])

text \<open>The same at an object with two vertices and the factor 2.\<close>

theorem scale_exact_multiplies_vertices_witness:
  "finite_object \<lparr>name = ''pore'', vertices = [(Fin 1, Fin 2, Fin 3), (Fin 3, Fin 4, Fin 5)], groups = []\<rparr>
   \<and> scale_fl Fin (Fin 2) \<lparr>name = ''pore'', vertices = [(Fin 1, Fin 2, Fin 3), (Fin 3, Fin 4, Fin 5)], groups = []\<rparr>
     = \<lparr>name = ''pore'', vertices = [(Fin 2, Fin 4, Fin 6), (Fin 6, Fin 8, Fin 10)], groups = []\<rparr>
   \<and> calculateCog_fl Fin (scale_fl Fin (Fin 2) \<lparr>name = ''pore'', vertices = [(Fin 1, Fin 2, Fin 3), (Fin 3, Fin 4, Fin 5)], groups = []\<rparr>)
     = (Fin 4, Fin 6, Fin 8)"
  using scale_exact_multiplies_vertices [of "\<lparr>name = ''pore'', vertices = [(Fin 1, Fin 2, Fin 3), (Fin 3, Fin 4, Fin 5)], groups = []\<rparr>" 2]
  by (simp add: finite_object_def finite_rvec_def scale_vertex_fl_def calculateCog_fl_def
      cog_add_fl_def rnd_fp_def)

text \<open>
  Claim C9 as stated says that \<open>scale\<close> is exactly the multiplication of every vertex
  by the factor, for every object and every factor. In single precision, for the three
  vertices with the first coordinates 1, 1 and 6 and the factor 7, the centre of
  geometry 8/3 is rounded and \<open>scale\<close> gives \<open>7 + 1 / 2 ^ 20\<close> where the product is
  7. For a vertex with an infinite coordinate, and for an infinite factor, \<open>scale\<close>
  gives NaN where the product is an infinity.
\<close>

theorem scale_rounding_counterexample:
  "vertices (scale_fl fl32 (Fin 7)
      \<lparr>name = ''pore'',
       vertices = [(Fin 1, Fin 0, Fin 0), (Fin 1, Fin 0, Fin 0), (Fin 6, Fin 0, Fin 0)],
       groups = []\<rparr>)
     = [(Fin (7 + 1 / 2 ^ 20), Fin 0, Fin 0), (Fin (7 + 1 / 2 ^ 20), Fin 0, Fin 0),
        (Fin 42, Fin 0, Fin 0)]
   \<and> map (scale_vertex_fl fl32 (Fin 7))
         [(Fin 1, Fin 0, Fin 0), (Fin 1, Fin 0, Fin 0), (Fin 6, Fin 0, Fin 0)]
     = [(Fin 7, Fin 0, Fin 0), (Fin 7, Fin 0, Fin 0), (Fin 42, Fin 0, Fin 0)]
   \<and> vertices (scale_fl fl32 (Fin 7)
        \<lparr>name = ''pore'', vertices = [(PInf, Fin 0, Fin 0)], groups = []\<rparr>)
     = [(NaN, Fin 0, Fin 0)]
   \<and> map (scale_vertex_fl fl32 (Fin 7)) [(PInf, Fin 0, Fin 0)] = [(PInf, Fin 0, Fin 0)]
   \<and> vertices (scale_fl fl32 PInf
        \<lparr>name = ''pore'', vertices = [(Fin 1, Fin 1, Fin 1)], groups = []\<rparr>)
     = [(NaN, NaN, NaN)]
   \<and> map (scale_vertex_fl fl32 PInf) [(Fin 1, Fin 1, Fin 1)] = [(PInf, PInf, PInf)]"
  by (simp add: scale_fl_eval fl32_eval rne_def finf_def)

text \<open>
  Claim C10, as amended. \<open>calculateCog\<close> has no guard: for an object without vertices
  each component of the result is 0/0, that is NaN. \<open>scale\<close> calls it and gets a shift
  vector of NaNs, but it has no vertex to add the vector to and returns the object as
  it was.
\<close>

theorem cog_of_empty_object:
  "calculateCog (obj\<lparr>vertices := []\<rparr>) = (NaN, NaN, NaN)
   \<and> scale_shift (obj\<lparr>vertices := []\<rparr>) = (NaN, NaN, NaN)
   \<and> scale fac (obj\<lparr>vertices := []\<rparr>) = obj\<lparr>vertices := []\<rparr>"
  by (simp add: calculateCog_def scale_shift_def finf_def scale_def shift_def Let_def)

text \<open>
  Claim C10 as stated says that \<open>scale\<close> has no well-defined finite result on an
  object without vertices. It has: the object itself.
\<close>

theorem scale_empty_counterexample:
  "finite_object (scale (Fin 2) \<lparr>name = ''pore'', vertices = [], groups = []\<rparr>)
   \<and> scale (Fin 2) \<lparr>name = ''pore'', vertices = [], groups = []\<rparr>
     = \<lparr>name = ''pore'', vertices = [], groups = []\<rparr>"
  by (simp add: finite_object_def scale_def shift_def Let_def)

section \<open>Properties of the per-frame analysis\<close>

lemma at_or_entry:
  assumes "distinct (map fst m)" and "(k, v) \<in> set m"
  shows "at_or d m k = v"
  using assms by (simp add: at_or_def)

lemma poreFacingMap_keys:
  "map fst (poreFacingMap dflt cog cal lining) = map fst cog"
  by (simp add: poreFacingMap_def comp_def)

lemma poreFacingMap_entry:
  assumes "(k, c) \<in> set cog"
  shows "(k, isPoreFacing dflt cal lining (k, c)) \<in> set (poreFacingMap dflt cog cal lining)"
  using assms by (force simp: poreFacingMap_def)

lemma poreFacingMap_absent:
  assumes "k \<notin> fst ` set cog"
  shows "at_or False (poreFacingMap dflt cog cal lining) k = False"
proof -
  have "fst ` set (poreFacingMap dflt cog cal lining) = fst ` set cog"
    using poreFacingMap_keys [of dflt cog cal lining] by (metis set_map)
  with assms have "map_of (poreFacingMap dflt cog cal lining) k = None"
    by (simp add: map_of_eq_None_iff)
  then show ?thesis by (simp add: at_or_def)
qed

text \<open>
  Claim C5. For every mapped residue (the keys of a \<open>std::map\<close> are distinct), the
  pore-facing flag is set exactly when the residue is pore-lining and the radial
  component of its centre of geometry is below that of its C-alpha; so every
  pore-facing residue is pore-lining.
\<close>

theorem poreFacing_iff:
  assumes "distinct (map fst poreCogMappedCoords)"
    and "(k, c) \<in> set poreCogMappedCoords"
  shows "(at_or False (poreFacingMap dflt poreCogMappedCoords poreCalMappedCoords poreLining) k
            \<longleftrightarrow> at_or False poreLining k
                \<and> compRR c < compRR (at_or dflt poreCalMappedCoords k))
    \<and> (at_or False (poreFacingMap dflt poreCogMappedCoords poreCalMappedCoords poreLining) k
            \<longrightarrow> at_or False poreLining k)"
proof -
  let ?pf = "poreFacingMap dflt poreCogMappedCoords poreCalMappedCoords poreLining"
  have "distinct (map fst ?pf)" using assms(1) by (simp add: poreFacingMap_keys)
  from at_or_entry [OF this poreFacingMap_entry [OF assms(2)]]
  have "at_or False ?pf k = isPoreFacing dflt poreCalMappedCoords poreLining (k, c)" .
  then show ?thesis by (auto simp: isPoreFacing_def)
qed

text \<open>
  The same for two pore-lining residues: the first is closer than its C-alpha, the second
  is not.
\<close>

theorem poreFacing_iff_witness:
  "at_or False (poreFacingMap (0, 0, 0) [(1, (0, 1, 0)), (2, (1, 9, 0))]
       [(1, (0, 4, 0)), (2, (1, 4, 0))] [(1, True), (2, True)]) 1
   \<and> \<not> at_or False (poreFacingMap (0, 0, 0) [(1, (0, 1, 0)), (2, (1, 9, 0))]
       [(1, (0, 4, 0)), (2, (1, 4, 0))] [(1, True), (2, True)]) 2"
  using poreFacing_iff [of "[(1, (0, 1, 0)), (2, (1, 9, 0))]" 1 "(0, 1, 0)" "(0, 0, 0)"
      "[(1, (0, 4, 0)), (2, (1, 4, 0))]" "[(1, True), (2, True)]"]
    poreFacing_iff [of "[(1, (0, 1, 0)), (2, (1, 9, 0))]" 2 "(1, 9, 0)" "(0, 0, 0)"
      "[(1, (0, 4, 0)), (2, (1, 4, 0))]" "[(1, True), (2, True)]"]
  by (simp add: at_or_def compRR_def)

text \<open>
  Comparing the radial components is the same as comparing the radial distances written
  to the residue records, which are their square roots.
\<close>

lemma closer_by_recorded_rho:
  assumes "0 \<le> a" and "0 \<le> b"
  shows "fless (fsqrt a) (fsqrt b) \<longleftrightarrow> a < b"
  using assms by (simp add: fsqrt_def)

text \<open>
  Claim C4. From the same mapped coordinates \<open>(1, 4, 1/2)\<close> the residue record gets
  the radial coordinate 2, the square root of the mapped component, and the solvent
  record gets 4, the mapped component itself, with the azimuth 0: the two records cannot
  both hold the distance to the centreline.
\<close>

theorem rho_records_differ:
  "res_rho (residueRecord sel pl pf rad den (7, (1, 4, 1 / 2))) = Fin 2
   \<and> solv_rho (solventRecord sel ip is (7, (1, 4, 1 / 2))) = 4
   \<and> solv_phi (solventRecord sel ip is (7, (1, 4, 1 / 2))) = 0"
  by (simp add: residueRecord_def solventRecord_def fsqrt_def compRR_def)

text \<open>
  The two records agree on the radial coordinate only where the mapped component is 0
  or 1.
\<close>

lemma rho_records_agree_iff:
  assumes "0 \<le> compRR c"
  shows "res_rho (residueRecord sel pl pf rad den (k, c)) = Fin (solv_rho (solventRecord sel2 ip is (k, c)))
     \<longleftrightarrow> compRR c = 0 \<or> compRR c = 1"
proof -
  have "sqrt x = x \<longleftrightarrow> x = 0 \<or> x = 1" if "0 \<le> x" for x :: real
  proof
    assume "sqrt x = x"
    then have "(sqrt x)\<^sup>2 = x\<^sup>2" by simp
    with that have "x = x\<^sup>2" by simp
    then have "x * (x - 1) = 0" by (simp add: power2_eq_square algebra_simps)
    then show "x = 0 \<or> x = 1" by auto
  next
    assume "x = 0 \<or> x = 1"
    then show "sqrt x = x" by auto
  qed
  with assms show ?thesis
    by (simp add: residueRecord_def solventRecord_def fsqrt_def compRR_def)
qed

lemma hpCollect_lists:
  "plResidueCoordS (fold (hpCollect hyd pl pf) cog h) =
     plResidueCoordS h @ map (\<lambda>res. Fin (compSS (snd res))) (filter (\<lambda>res. at_or False pl (fst res)) cog)"
  "plResidueHydrophobicity (fold (hpCollect hyd pl pf) cog h) =
     plResidueHydrophobicity h @ map (\<lambda>res. hyd (fst res)) (filter (\<lambda>res. at_or False pl (fst res)) cog)"
  "pfResidueCoordS (fold (hpCollect hyd pl pf) cog h) =
     pfResidueCoordS h @ map (\<lambda>res. Fin (compSS (snd res))) (filter (\<lambda>res. at_or False pf (fst res)) cog)"
  "pfResidueHydrophobicity (fold (hpCollect hyd pl pf) cog h) =
     pfResidueHydrophobicity h @ map (\<lambda>res. hyd (fst res)) (filter (\<lambda>res. at_or False pf (fst res)) cog)"
  by (induction cog arbitrary: h; simp add: hpCollect_def Let_def)+

lemma hpCollect_min_fin:
  assumes "minPoreResS h = Fin a"
  shows "minPoreResS (fold (hpCollect hyd pl pf) cog h) =
     Fin (fold min (map (\<lambda>res. compSS (snd res)) cog) a)"
  using assms
proof (induction cog arbitrary: h a)
  case Nil
  then show ?case by simp
next
  case (Cons r cog)
  have "minPoreResS (hpCollect hyd pl pf r h) = Fin (min (compSS (snd r)) a)"
    using Cons.prems by (simp add: hpCollect_def Let_def min_def)
  from Cons.IH [OF this] show ?case by simp
qed

lemma hpCollect_max_fin:
  assumes "maxPoreResS h = Fin a"
  shows "maxPoreResS (fold (hpCollect hyd pl pf) cog h) =
     Fin (fold max (map (\<lambda>res. compSS (snd res)) cog) a)"
  using assms
proof (induction cog arbitrary: h a)
  case Nil
  then show ?case by simp
next
  case (Cons r cog)
  have "maxPoreResS (hpCollect hyd pl pf r h) = Fin (max (compSS (snd r)) a)"
    using Cons.prems by (simp add: hpCollect_def Let_def max_def)
  from Cons.IH [OF this] show ?case by simp
qed

lemma hpCollect_extremes:
  assumes "cog \<noteq> []"
  shows "minPoreResS (fold (hpCollect hyd pl pf) cog hp_init) =
           Fin (Min (set (map (\<lambda>res. compSS (snd res)) cog)))"
    and "maxPoreResS (fold (hpCollect hyd pl pf) cog hp_init) =
           Fin (Max (set (map (\<lambda>res. compSS (snd res)) cog)))"
proof -
  from assms obtain r rest where c: "cog = r # rest" by (cases cog) auto
  have lo: "minPoreResS (hpCollect hyd pl pf r hp_init) = Fin (compSS (snd r))"
    by (simp add: hpCollect_def hp_init_def Let_def)
  have hi: "maxPoreResS (hpCollect hyd pl pf r hp_init) = Fin (compSS (snd r))"
    by (simp add: hpCollect_def hp_init_def Let_def)
  show "minPoreResS (fold (hpCollect hyd pl pf) cog hp_init) =
           Fin (Min (set (map (\<lambda>res. compSS (snd res)) cog)))"
    using hpCollect_min_fin [OF lo, of hyd pl pf rest]
      Min.set_eq_fold [of "compSS (snd r)" "map (\<lambda>res. compSS (snd res)) rest"]
    by (simp add: c)
  show "maxPoreResS (fold (hpCollect hyd pl pf) cog hp_init) =
           Fin (Max (set (map (\<lambda>res. compSS (snd res)) cog)))"
    using hpCollect_max_fin [OF hi, of hyd pl pf rest]
      Max.set_eq_fold [of "compSS (snd r)" "map (\<lambda>res. compSS (snd res)) rest"]
    by (simp add: c)
qed

text \<open>
  Claim C6, as amended. When at least one residue is mapped, the samples of the
  pore-lining and of the pore-facing profile are the flagged residues followed by two
  samples of value zero, at half a bandwidth below the smallest and half a bandwidth
  above the largest arc-length coordinate of all mapped residues.
\<close>

theorem hydrophobSamples_padding:
  assumes "poreCogMappedCoords \<noteq> []"
  shows "plResidueCoordS
           (hydrophobSamples hpBandWidth hyd poreCogMappedCoords poreLining poreFacing) =
         map Fin (arcCoords (flagged poreLining poreCogMappedCoords))
           @ [Fin (Min (set (arcCoords poreCogMappedCoords)) - hpBandWidth / 2),
              Fin (Max (set (arcCoords poreCogMappedCoords)) + hpBandWidth / 2)]
    \<and> plResidueHydrophobicity
           (hydrophobSamples hpBandWidth hyd poreCogMappedCoords poreLining poreFacing) =
         map (\<lambda>res. hyd (fst res)) (flagged poreLining poreCogMappedCoords) @ [0, 0]
    \<and> pfResidueCoordS
           (hydrophobSamples hpBandWidth hyd poreCogMappedCoords poreLining poreFacing) =
         map Fin (arcCoords (flagged poreFacing poreCogMappedCoords))
           @ [Fin (Min (set (arcCoords poreCogMappedCoords)) - hpBandWidth / 2),
              Fin (Max (set (arcCoords poreCogMappedCoords)) + hpBandWidth / 2)]
    \<and> pfResidueHydrophobicity
           (hydrophobSamples hpBandWidth hyd poreCogMappedCoords poreLining poreFacing) =
         map (\<lambda>res. hyd (fst res)) (flagged poreFacing poreCogMappedCoords) @ [0, 0]"
  using hpCollect_extremes [OF assms, of hyd poreLining poreFacing]
  by (simp add: hydrophobSamples_def hpPad_def hpCollect_lists arcCoords_def flagged_def
      fsub_def hp_init_def comp_def)

text \<open>The same for two residues at 0 and 3 and the bandwidth 1.\<close>

theorem hydrophobSamples_padding_witness:
  "pfResidueCoordS (hydrophobSamples 1 (\<lambda>k. 2) [(1, (0, 1, 0)), (2, (3, 1, 0))]
       [(1, True), (2, True)] [(1, True), (2, False)])
     = [Fin 0, Fin (- (1 / 2)), Fin (7 / 2)]
   \<and> pfResidueHydrophobicity (hydrophobSamples 1 (\<lambda>k. 2) [(1, (0, 1, 0)), (2, (3, 1, 0))]
       [(1, True), (2, True)] [(1, True), (2, False)])
     = [2, 0, 0]"
  using hydrophobSamples_padding [of "[(1, (0, 1, 0)), (2, (3, 1, 0))]" 1 "\<lambda>k. 2"
      "[(1, True), (2, True)]" "[(1, True), (2, False)]"]
  by (simp add: arcCoords_def flagged_def at_or_def compSS_def)

text \<open>
  Claim C6 as stated puts the two samples one bandwidth away. For one residue at 0 and
  the bandwidth 1 they are at -1/2 and 1/2, not at -1 and 1.
\<close>

theorem hydrophobSamples_half_bandwidth_counterexample:
  "plResidueCoordS (hydrophobSamples 1 (\<lambda>k. 2) [(1, (0, 1, 0))] [(1, True)] [(1, True)])
     = [Fin 0, Fin (- (1 / 2)), Fin (1 / 2)]
   \<and> pfResidueCoordS (hydrophobSamples 1 (\<lambda>k. 2) [(1, (0, 1, 0))] [(1, True)] [(1, True)])
     = [Fin 0, Fin (- (1 / 2)), Fin (1 / 2)]"
  by (simp add: hydrophobSamples_def hpPad_def hpCollect_def hp_init_def Let_def
      at_or_def compSS_def fsub_def)

text \<open>Without any mapped residue the two samples are at plus and minus infinity.\<close>

lemma hydrophobSamples_no_residue:
  "plResidueCoordS (hydrophobSamples hpBandWidth hyd [] poreLining poreFacing) = [PInf, MInf]"
  by (simp add: hydrophobSamples_def hpPad_def hp_init_def fsub_def)

section \<open>Properties of the aggregation\<close>

lemma linesRead_pass1_line: "linesRead (pass1_line d p) = linesRead p + 1"
  by (simp add: pass1_line_def)

lemma firstPass_bad_line:
  assumes "list_all is_object good"
  shows "firstPass (good @ NotObject # rest) p
     = Inl (LineNotJsonObject (linesRead p + int (length good)))"
  using assms
proof (induction good arbitrary: p)
  case Nil
  then show ?case by simp
next
  case (Cons l good)
  then obtain d where l: "l = Object d" by (cases l) auto
  from Cons show ?case by (simp add: l linesRead_pass1_line)
qed

lemma firstPass_ok:
  assumes "firstPass ls p = Inr q"
  shows "list_all is_object ls"
    and "q = fold pass1_line (frame_docs ls) p"
    and "linesRead q = linesRead p + int (length ls)"
  using assms
proof (induction ls arbitrary: p)
  case Nil
  {
    case 1 then show ?case by simp
  next
    case 2 then show ?case by simp
  next
    case 3 then show ?case by simp
  }
next
  case (Cons l ls)
  {
    case 1
    then obtain d where l: "l = Object d" by (cases l) auto
    with 1 have "firstPass ls (pass1_line d p) = Inr q" by simp
    from Cons.IH(1) [OF this] show ?case by (simp add: l)
  next
    case 2
    then obtain d where l: "l = Object d" by (cases l) auto
    with 2 have "firstPass ls (pass1_line d p) = Inr q" by simp
    from Cons.IH(2) [OF this] show ?case by (simp add: l)
  next
    case 3
    then obtain d where l: "l = Object d" by (cases l) auto
    with 3 have "firstPass ls (pass1_line d p) = Inr q" by simp
    from Cons.IH(3) [OF this] show ?case by (simp add: l linesRead_pass1_line)
  }
qed

lemma firstPass_all_objects:
  assumes "list_all is_object ls"
  shows "firstPass ls p = Inr (fold pass1_line (frame_docs ls) p)"
  using assms
proof (induction ls arbitrary: p)
  case Nil
  then show ?case by simp
next
  case (Cons l ls)
  then obtain d where l: "l = Object d" by (cases l) auto
  from Cons show ?case by (simp add: l)
qed

lemma secondPass_ok:
  assumes "secondPass es it pts lo hi ls p = Inr q"
  shows "list_all is_object ls
     \<and> q = fold (pass2_line es it pts lo hi) (frame_docs ls) p"
  using assms
proof (induction ls arbitrary: p)
  case Nil
  then show ?case by simp
next
  case (Cons l ls)
  show ?case
  proof (cases l)
    case NotObject
    with Cons.prems show ?thesis by simp
  next
    case (Object d)
    with Cons.prems have "secondPass es it pts lo hi ls (pass2_line es it pts lo hi d p) = Inr q"
      by simp
    from Cons.IH [OF this] show ?thesis by (simp add: Object)
  qed
qed

lemma split_at_first_bad:
  assumes "\<not> list_all is_object ls"
  shows "\<exists>good rest. ls = good @ NotObject # rest \<and> list_all is_object good"
  using assms
proof (induction ls)
  case Nil
  then show ?case by simp
next
  case (Cons l ls)
  show ?case
  proof (cases l)
    case NotObject
    then have "l # ls = [] @ NotObject # ls \<and> list_all is_object []" by simp
    then show ?thesis by blast
  next
    case (Object d)
    with Cons.prems have "\<not> list_all is_object ls" by simp
    from Cons.IH [OF this] obtain good rest
      where "ls = good @ NotObject # rest" and "list_all is_object good" by blast
    then have "l # ls = (l # good) @ NotObject # rest \<and> list_all is_object (l # good)"
      by (simp add: Object)
    then show ?thesis by blast
  qed
qed

text \<open>
  Claim C8, as amended. A line that is not a JSON object makes \<open>finishAnalysis\<close> throw
  at that line, with the index of the line: the line is not skipped and the lines after
  it are not read. When \<open>finishAnalysis\<close> succeeds, every line is a JSON object, the
  number of lines is the number of frames, and the scalar summaries are those of all
  lines.
\<close>

theorem finishAnalysis_bad_line:
  "(list_all is_object good \<longrightarrow>
      finishAnalysis es it n x numFrames (good @ NotObject # rest)
        = Inl (LineNotJsonObject (int (length good))))
   \<and> (\<forall>out. finishAnalysis es it n x numFrames ls = Inr out \<longrightarrow>
        list_all is_object ls \<and> int (length ls) = numFrames
        \<and> out_scalars out = fold pass1_line (frame_docs ls) pass1_init)"
proof -
  have bad: "finishAnalysis es it n x numFrames (good @ NotObject # rest)
        = Inl (LineNotJsonObject (int (length good)))" if "list_all is_object good"
    using firstPass_bad_line [OF that, of rest pass1_init]
    by (simp add: finishAnalysis_def pass1_init_def)
  have good: "list_all is_object ls \<and> int (length ls) = numFrames
        \<and> out_scalars out = fold pass1_line (frame_docs ls) pass1_init"
    if ok: "finishAnalysis es it n x numFrames ls = Inr out" for out
  proof -
    from ok obtain p1 where p1: "firstPass ls pass1_init = Inr p1"
      by (cases "firstPass ls pass1_init") (simp_all add: finishAnalysis_def)
    have a: "list_all is_object ls" and f: "p1 = fold pass1_line (frame_docs ls) pass1_init"
      using firstPass_ok(1,2) [OF p1] by simp_all
    have n: "linesRead p1 = int (length ls)"
      using firstPass_ok(3) [OF p1] by (simp add: pass1_init_def)
    from ok p1 have "linesRead p1 = numFrames \<and> out_scalars out = p1"
      by (auto simp: finishAnalysis_def Let_def split: if_splits sum.splits)
    with a f n show ?thesis by simp
  qed
  from bad good show ?thesis by blast
qed


lemma ss_update_sum:
  "ss_num (ss_update x s) = ss_num s + 1"
  "real (ss_num (ss_update x s)) * ss_mean (ss_update x s) = real (ss_num s) * ss_mean s + x"
  by (simp_all add: ss_update_def Let_def field_simps)

lemma ss_fold_num: "ss_num (fold ss_update xs s) = ss_num s + length xs"
  by (induction xs arbitrary: s) (simp_all add: ss_update_sum(1))

lemma ss_fold_sum:
  "real (ss_num s + length xs) * ss_mean (fold ss_update xs s)
     = real (ss_num s) * ss_mean s + sum_list xs"
proof (induction xs arbitrary: s)
  case Nil
  show ?case by simp
next
  case (Cons x xs)
  have "real (ss_num s + length (x # xs)) * ss_mean (fold ss_update (x # xs) s)
      = real (ss_num (ss_update x s) + length xs)
          * ss_mean (fold ss_update xs (ss_update x s))"
    by (simp add: ss_update_sum(1))
  also have "\<dots> = real (ss_num (ss_update x s)) * ss_mean (ss_update x s) + sum_list xs"
    by (rule Cons.IH)
  also have "\<dots> = real (ss_num s) * ss_mean s + sum_list (x # xs)"
    by (simp add: ss_update_sum(2))
  finally show ?case .
qed

lemma summarise_mean: "ss_mean (summarise xs) = average xs"
proof (cases xs)
  case Nil
  then show ?thesis by (simp add: summarise_def average_def ss_empty_def)
next
  case (Cons y ys)
  have "ss_num ss_empty = 0" and "ss_mean ss_empty = 0" by (simp_all add: ss_empty_def)
  with ss_fold_sum [of ss_empty xs]
  have "real (length xs) * ss_mean (fold ss_update xs ss_empty) = sum_list xs"
    by simp
  moreover from Cons have "real (length xs) \<noteq> 0" by simp
  ultimately show ?thesis
    unfolding summarise_def average_def by (simp add: field_simps)
qed

lemma ss_fold_min:
  assumes "0 < ss_num s"
  shows "ss_min (fold ss_update xs s) = fold min xs (ss_min s)"
  using assms
proof (induction xs arbitrary: s)
  case Nil
  show ?case by simp
next
  case (Cons x xs)
  have n: "0 < ss_num (ss_update x s)" by (simp add: ss_update_sum(1))
  from Cons.prems have e: "ss_min (ss_update x s) = min x (ss_min s)"
    by (simp add: ss_update_def Let_def min.commute)
  have "ss_min (fold ss_update (x # xs) s) = ss_min (fold ss_update xs (ss_update x s))"
    by simp
  also have "\<dots> = fold min xs (ss_min (ss_update x s))"
    by (rule Cons.IH [OF n])
  also have "\<dots> = fold min (x # xs) (ss_min s)"
    by (simp only: e fold_simps comp_apply)
  finally show ?case .
qed

lemma ss_fold_max:
  assumes "0 < ss_num s"
  shows "ss_max (fold ss_update xs s) = fold max xs (ss_max s)"
  using assms
proof (induction xs arbitrary: s)
  case Nil
  show ?case by simp
next
  case (Cons x xs)
  have n: "0 < ss_num (ss_update x s)" by (simp add: ss_update_sum(1))
  from Cons.prems have e: "ss_max (ss_update x s) = max x (ss_max s)"
    by (simp add: ss_update_def Let_def max.commute)
  have "ss_max (fold ss_update (x # xs) s) = ss_max (fold ss_update xs (ss_update x s))"
    by simp
  also have "\<dots> = fold max xs (ss_max (ss_update x s))"
    by (rule Cons.IH [OF n])
  also have "\<dots> = fold max (x # xs) (ss_max s)"
    by (simp only: e fold_simps comp_apply)
  finally show ?case .
qed

lemma summarise_extremes:
  assumes "xs \<noteq> []"
  shows "ss_min (summarise xs) = Min (set xs)" and "ss_max (summarise xs) = Max (set xs)"
proof -
  from assms obtain y ys where xs: "xs = y # ys" by (cases xs) auto
  have n: "0 < ss_num (ss_update y ss_empty)" by (simp add: ss_update_sum)
  have lo: "ss_min (ss_update y ss_empty) = y" and hi: "ss_max (ss_update y ss_empty) = y"
    by (simp_all add: ss_update_def ss_empty_def)
  show "ss_min (summarise xs) = Min (set xs)"
    using ss_fold_min [OF n, of ys] Min.set_eq_fold [of y ys]
    by (simp add: summarise_def xs lo)
  show "ss_max (summarise xs) = Max (set xs)"
    using ss_fold_max [OF n, of ys] Max.set_eq_fold [of y ys]
    by (simp add: summarise_def xs hi)
qed

lemma pass1_arcLength:
  "arcLengthLoSummary (fold pass1_line ds p)
     = fold ss_update (map ps_arcLengthLo ds) (arcLengthLoSummary p)"
  "arcLengthHiSummary (fold pass1_line ds p)
     = fold ss_update (map ps_arcLengthHi ds) (arcLengthHiSummary p)"
  by (induction ds arbitrary: p; simp add: pass1_line_def)+

lemma pass2_fold:
  "anchorEnergyLo (fold (pass2_line es it pts lo hi) ds p)
     = fold ss_update (map (\<lambda>d. it pts (es pts d) lo) ds) (anchorEnergyLo p)"
  "anchorEnergyHi (fold (pass2_line es it pts lo hi) ds p)
     = fold ss_update (map (\<lambda>d. it pts (es pts d) hi) ds) (anchorEnergyHi p)"
  "energySummary (fold (pass2_line es it pts lo hi) ds p)
     = fold (\<lambda>d stats. updateMultiple stats (es pts d)) ds (energySummary p)"
  by (induction ds arbitrary: p; simp add: pass2_line_def Let_def)+

lemma frame_docs_nonempty:
  assumes "list_all is_object ls" and "ls \<noteq> []"
  shows "frame_docs ls \<noteq> []"
proof -
  from assms(2) obtain l rest where "ls = l # rest" by (cases ls) auto
  with assms(1) show ?thesis by (cases l) auto
qed


lemma finishAnalysis_ok:
  assumes ok: "finishAnalysis es it n x numFrames ls = Inr out"
  shows "\<exists>p2. secondPass es it (out_supportPoints out)
            (ss_min (arcLengthLoSummary (out_scalars out)))
            (ss_max (arcLengthHiSummary (out_scalars out))) ls
            (pass2_init (length (out_supportPoints out))) = Inr p2
          \<and> out_profiles out = shiftEnergy p2"
  using ok
  by (auto simp: finishAnalysis_def Let_def split: if_splits sum.splits)

text \<open>
  Claim C7. When \<open>finishAnalysis\<close> succeeds on at least one frame, the energy summary
  of every support point is the accumulated one shifted by one constant: minus half the
  sum of the mean energies at the two anchor points, the smallest \<open>sLo\<close> and the
  largest \<open>sHi\<close> over the frames. The mean of the two aggregated anchor energies,
  shifted by that constant, is zero.
\<close>

theorem energy_profile_shift:
  assumes ok: "finishAnalysis es it n x numFrames ls = Inr out" and ne: "ls \<noteq> []"
  shows "energySummary (out_profiles out)
           = map (ss_shift (anchorShift es it (out_supportPoints out) ls))
               (energyBeforeShift es (out_supportPoints out) ls)
    \<and> map ss_mean (energySummary (out_profiles out))
           = map (\<lambda>s. ss_mean s + anchorShift es it (out_supportPoints out) ls)
               (energyBeforeShift es (out_supportPoints out) ls)
    \<and> ss_mean (anchorEnergyLo (out_profiles out))
           = average (anchorEnergies es it (out_supportPoints out) (anchorLo ls) ls)
    \<and> ss_mean (anchorEnergyHi (out_profiles out))
           = average (anchorEnergies es it (out_supportPoints out) (anchorHi ls) ls)
    \<and> (ss_mean (ss_shift (anchorShift es it (out_supportPoints out) ls)
                   (anchorEnergyLo (out_profiles out)))
        + ss_mean (ss_shift (anchorShift es it (out_supportPoints out) ls)
                     (anchorEnergyHi (out_profiles out)))) / 2 = 0"
proof -
  let ?pts = "out_supportPoints out"
  let ?ds = "frame_docs ls"
  from ok obtain p1 where p1: "firstPass ls pass1_init = Inr p1"
    by (cases "firstPass ls pass1_init") (simp_all add: finishAnalysis_def)
  from ok p1 have sc: "out_scalars out = p1"
    by (auto simp: finishAnalysis_def Let_def split: if_splits sum.splits)
  have objs: "list_all is_object ls" and f1: "p1 = fold pass1_line ?ds pass1_init"
    using firstPass_ok(1,2) [OF p1] by simp_all
  from frame_docs_nonempty [OF objs ne] have dne: "?ds \<noteq> []" .
  have lo: "ss_min (arcLengthLoSummary p1) = anchorLo ls"
    using summarise_extremes(1) [of "map ps_arcLengthLo ?ds"] dne
    by (simp add: f1 pass1_arcLength pass1_init_def anchorLo_def summarise_def)
  have hi: "ss_max (arcLengthHiSummary p1) = anchorHi ls"
    using summarise_extremes(2) [of "map ps_arcLengthHi ?ds"] dne
    by (simp add: f1 pass1_arcLength pass1_init_def anchorHi_def summarise_def)
  from finishAnalysis_ok [OF ok] obtain p2
    where p2: "secondPass es it ?pts (anchorLo ls) (anchorHi ls) ls
                 (pass2_init (length ?pts)) = Inr p2"
      and pr: "out_profiles out = shiftEnergy p2"
    by (auto simp: sc lo hi)
  from secondPass_ok [OF p2]
  have f2: "p2 = fold (pass2_line es it ?pts (anchorLo ls) (anchorHi ls)) ?ds
                   (pass2_init (length ?pts))" by simp
  have aLo: "anchorEnergyLo p2 = summarise (anchorEnergies es it ?pts (anchorLo ls) ls)"
    by (subst f2) (simp add: pass2_fold pass2_init_def summarise_def anchorEnergies_def)
  have aHi: "anchorEnergyHi p2 = summarise (anchorEnergies es it ?pts (anchorHi ls) ls)"
    by (subst f2) (simp add: pass2_fold pass2_init_def summarise_def anchorEnergies_def)
  have en: "energySummary p2 = energyBeforeShift es ?pts ls"
    by (subst f2) (simp add: pass2_fold pass2_init_def energyBeforeShift_def)
  have c: "energyShift p2 = anchorShift es it ?pts ls"
    unfolding energyShift_def anchorShift_def aLo aHi summarise_mean by argo
  have 1: "energySummary (out_profiles out)
      = map (ss_shift (anchorShift es it ?pts ls)) (energyBeforeShift es ?pts ls)"
    by (simp add: pr shiftEnergy_def c en)
  have 2: "map ss_mean (energySummary (out_profiles out))
      = map (\<lambda>s. ss_mean s + anchorShift es it ?pts ls) (energyBeforeShift es ?pts ls)"
    by (simp add: 1 ss_shift_def comp_def)
  have 3: "ss_mean (anchorEnergyLo (out_profiles out))
      = average (anchorEnergies es it ?pts (anchorLo ls) ls)"
    by (simp add: pr shiftEnergy_def aLo summarise_mean)
  have 4: "ss_mean (anchorEnergyHi (out_profiles out))
      = average (anchorEnergies es it ?pts (anchorHi ls) ls)"
    by (simp add: pr shiftEnergy_def aHi summarise_mean)
  have 5: "(ss_mean (ss_shift (anchorShift es it ?pts ls) (anchorEnergyLo (out_profiles out)))
        + ss_mean (ss_shift (anchorShift es it ?pts ls) (anchorEnergyHi (out_profiles out)))) / 2
      = 0"
    unfolding anchorShift_def by (simp add: ss_shift_def 3 4)
  from 1 2 3 4 5 show ?thesis by blast
qed


text \<open>The definitions to unfold when the aggregation is run on given lines.\<close>

lemmas fa_eval =
  finishAnalysis_def pass1_init_def pass1_line_def pass2_init_def pass2_line_def
  shiftEnergy_def energyShift_def buildSupportPoints_def supportPointsStep_def
  ss_update_def ss_empty_def ss_shift_def updateMultiple_def frame_example_def
  sampleConst_def interpFirst_def Let_def

text \<open>
  The same for two frames with the energies 1 and 5: the shift is -3 and the shifted
  mean energy is 0 at both support points.
\<close>

theorem energy_profile_shift_witness:
  "\<not> isl (finishAnalysis sampleConst interpFirst 2 0 2
            [Object (frame_example (- 1) 2 1), Object (frame_example 0 3 5)])
   \<and> map ss_mean (energySummary (out_profiles (projr
         (finishAnalysis sampleConst interpFirst 2 0 2
            [Object (frame_example (- 1) 2 1), Object (frame_example 0 3 5)]))))
       = [0, 0]"
proof -
  let ?ls = "[Object (frame_example (- 1) 2 1), Object (frame_example 0 3 5)]"
  obtain out where ok: "finishAnalysis sampleConst interpFirst 2 0 2 ?ls = Inr out"
    and pts: "out_supportPoints out = [Fin (- 1), Fin 3]"
    by (simp add: fa_eval upt_rec)
  have ne: "?ls \<noteq> []" by simp
  have "map ss_mean (energySummary (out_profiles out))
      = map (\<lambda>s. ss_mean s + anchorShift sampleConst interpFirst (out_supportPoints out) ?ls)
          (energyBeforeShift sampleConst (out_supportPoints out) ?ls)"
    using energy_profile_shift [OF ok ne] by blast
  also have "\<dots> = [0, 0]"
    unfolding pts
    by (simp add: anchorShift_def anchorEnergies_def anchorLo_def anchorHi_def average_def
        energyBeforeShift_def updateMultiple_def ss_update_def ss_empty_def
        sampleConst_def interpFirst_def frame_example_def Let_def)
  finally show ?thesis using ok by simp
qed

text \<open>
  The same for a good line followed by a bad one, and for a single good line.
\<close>

theorem finishAnalysis_bad_line_witness:
  "list_all is_object [Object (frame_example (- 1) 2 1)]
   \<and> finishAnalysis sampleConst interpFirst 2 0 1
        ([Object (frame_example (- 1) 2 1)] @ NotObject # [Object (frame_example 0 3 5)])
       = Inl (LineNotJsonObject 1)
   \<and> \<not> isl (finishAnalysis sampleConst interpFirst 2 0 1 [Object (frame_example (- 1) 2 1)])
   \<and> out_scalars (projr
         (finishAnalysis sampleConst interpFirst 2 0 1 [Object (frame_example (- 1) 2 1)]))
       = pass1_line (frame_example (- 1) 2 1) pass1_init"
proof -
  obtain out
    where ok: "finishAnalysis sampleConst interpFirst 2 0 1 [Object (frame_example (- 1) 2 1)]
      = Inr out"
    by (simp add: fa_eval upt_rec)
  from finishAnalysis_bad_line [where good = "[Object (frame_example (- 1) 2 1)]"
      and es = sampleConst and it = interpFirst and n = 2 and x = 0 and numFrames = 1
      and rest = "[Object (frame_example 0 3 5)]" and ls = "[Object (frame_example (- 1) 2 1)]"]
    ok
  show ?thesis by simp
qed

text \<open>
  Claim C8 as stated says that a bad line is skipped and counted, that the remaining
  lines are processed, and that the aggregation fails exactly when a bad line was seen.
  The error is thrown at the first bad line, whatever follows it, and the aggregation
  also fails without any bad line when the number of lines is not the number of frames.
\<close>

theorem finishAnalysis_skip_counterexample:
  "finishAnalysis sampleConst interpFirst 2 0 3
      [Object (frame_example (- 1) 2 1), NotObject, Object (frame_example 0 3 5)]
     = Inl (LineNotJsonObject 1)
   \<and> finishAnalysis sampleConst interpFirst 2 0 3
      [Object (frame_example (- 1) 2 1), NotObject, NotObject]
     = Inl (LineNotJsonObject 1)
   \<and> finishAnalysis sampleConst interpFirst 2 0 3 [Object (frame_example (- 1) 2 1)]
     = Inl FramesReadMismatch"
  by (simp add: finishAnalysis_def pass1_init_def linesRead_pass1_line)

end
